theory Spec2Isabelle
  imports Main "HOL-Library.AList"
begin

section \<open>Python values the export scripts work with\<close>

text \<open>
  The development embeds the two Rekordbox export scripts
  (\<^verbatim>\<open>copy_rekordbox_playlists_to_usb.py\<close> and \<^verbatim>\<open>export_rekordbox_playlists_to_usb.py\<close>)
  and, of \<^verbatim>\<open>export_playlists_to_usb.py\<close>, the state loader and \<^verbatim>\<open>copy_track_if_needed\<close>.
  What the scripts print or log is left out.
  A Python \<^verbatim>\<open>str\<close> is a \<^typ>\<open>string\<close>, each character standing for the code point of
  its number (the code points below 256); an exception is a value of \<open>exn\<close>, and a
  function that can raise returns \<open>exn + 'a\<close> with \<open>Inl\<close> for the exception.
\<close>

datatype exn =
    ValueError
  | AttributeError
  | TypeError
  | OSError
  | FileNotFoundError
  | FileExistsError
  | IsADirectoryError
  | NotADirectoryError
  | PermissionError
  | JSONDecodeError
  | UnicodeDecodeError
  | DatabaseError
  | RuntimeError
  | OverflowError
  | SystemExit
  | GenericException

subsection \<open>String methods\<close>

definition startswith :: "string \<Rightarrow> string \<Rightarrow> bool" where
  "startswith s p = (take (length p) s = p)"

definition endswith :: "string \<Rightarrow> string \<Rightarrow> bool" where
  "endswith s p = (length p \<le> length s \<and> drop (length s - length p) s = p)"

text \<open>\<^verbatim>\<open>sub in s\<close> for strings.\<close>

fun contains :: "string \<Rightarrow> string \<Rightarrow> bool" where
  "contains sub [] = (sub = [])"
| "contains sub (x # xs) = (startswith (x # xs) sub \<or> contains sub xs)"

text \<open>
  \<^verbatim>\<open>str.strip()\<close> removes white space at both ends. Below 256 the white space is tab,
  line feed, vertical tab, form feed, carriage return, the four separators
  \<^verbatim>\<open>\x1c\<close> to \<^verbatim>\<open>\x1f\<close>, the space, the next-line control \<^verbatim>\<open>\x85\<close> and the no-break
  space \<^verbatim>\<open>\xa0\<close>.
\<close>

definition py_isspace :: "char \<Rightarrow> bool" where
  "py_isspace c = (of_char c \<in> {9, 10, 11, 12, 13, 28, 29, 30, 31, 32, 133, 160 :: nat})"

definition strip :: "string \<Rightarrow> string" where
  "strip s = rev (dropWhile py_isspace (rev (dropWhile py_isspace s)))"

text \<open>\<^verbatim>\<open>s.rstrip("/")\<close>.\<close>

definition rstrip_slash :: "string \<Rightarrow> string" where
  "rstrip_slash s = rev (dropWhile (\<lambda>c. c = CHR ''/'') (rev s))"

text \<open>
  \<^verbatim>\<open>s.split(sep)\<close> for a non-empty separator (Python raises \<^verbatim>\<open>ValueError\<close> on an empty
  one; the scripts only split on separators that contain a slash, and the model returns
  the unsplit string there).
\<close>

function split :: "string \<Rightarrow> string \<Rightarrow> string list" where
  "split sep s =
     (if sep = [] then [s]
      else if startswith s sep then [] # split sep (drop (length sep) s)
      else (case s of
              [] \<Rightarrow> [[]]
            | x # xs \<Rightarrow> (case split sep xs of
                          [] \<Rightarrow> [[x]]
                        | r # rs \<Rightarrow> (x # r) # rs)))"
  by pat_completeness auto
termination
proof (relation "measure (\<lambda>(sep, s). length s)", goal_cases)
  case 1
  show ?case by simp
next
  case (2 sep s)
  then have eq: "take (length sep) s = sep" and ne: "sep \<noteq> []"
    by (auto simp: startswith_def)
  have "length (take (length sep) s) \<le> length s" by simp
  with eq have "length sep \<le> length s" by simp
  with ne show ?case by (cases sep) auto
next
  case 3
  then show ?case by simp
qed

declare split.simps [simp del]

definition join :: "string \<Rightarrow> string list \<Rightarrow> string" where
  "join sep xs = (case xs of [] \<Rightarrow> [] | y # ys \<Rightarrow> y @ concat (map (\<lambda>z. sep @ z) ys))"

text \<open>\<^verbatim>\<open>s.replace(old, new)\<close> for a non-empty \<open>old\<close>.\<close>

definition replace :: "string \<Rightarrow> string \<Rightarrow> string \<Rightarrow> string" where
  "replace old new s = join new (split old s)"

subsection \<open>pathlib\<close>

text \<open>
  A \<^verbatim>\<open>PosixPath\<close> is its root (\<^verbatim>\<open>""\<close>, \<^verbatim>\<open>"/"\<close> or \<^verbatim>\<open>"//"\<close>) and the components after
  it. \<open>Path\<close> is the constructor applied to one string: it splits at slashes and drops
  empty components and dots, as \<^verbatim>\<open>pathlib\<close> does when it parses.
\<close>

datatype path = PosixPath (root: string) (tail: "string list")

definition splitroot :: "string \<Rightarrow> string \<times> string" where
  "splitroot p =
     (if take 1 p \<noteq> ''/'' then ([], p)
      else if take 1 (drop 1 p) \<noteq> ''/'' \<or> take 1 (drop 2 p) = ''/'' then (''/'', drop 1 p)
      else (''//'', drop 2 p))"

definition Path :: "string \<Rightarrow> path" where
  "Path s = (case splitroot s of
     (r, rel) \<Rightarrow> PosixPath r (filter (\<lambda>x. x \<noteq> [] \<and> x \<noteq> ''.'') (split ''/'' rel)))"

definition str :: "path \<Rightarrow> string" where
  "str p = (if root p = [] \<and> tail p = [] then ''.'' else root p @ join ''/'' (tail p))"

definition parts :: "path \<Rightarrow> string list" where
  "parts p = (if root p = [] then tail p else root p # tail p)"

definition parent :: "path \<Rightarrow> path" where
  "parent p = PosixPath (root p) (butlast (tail p))"

definition name :: "path \<Rightarrow> string" where
  "name p = (if tail p = [] then [] else last (tail p))"

text \<open>\<^verbatim>\<open>p / s\<close>: an absolute right operand replaces the left one.\<close>

definition joinpath :: "path \<Rightarrow> path \<Rightarrow> path" where
  "joinpath p q = (if root q \<noteq> [] then q else PosixPath (root p) (tail p @ tail q))"

section \<open>The collection hierarchy\<close>

record PlaylistNode =
  pn_id :: string
  pn_name :: string
  pn_parent_id :: "string option"

text \<open>
  \<^verbatim>\<open>self.id_to_node = {p.id: p for p in result}\<close>: of two nodes with one id the later
  one stays.
\<close>

definition id_to_node :: "PlaylistNode list \<Rightarrow> string \<rightharpoonup> PlaylistNode" where
  "id_to_node nodes = map_of (rev (map (\<lambda>p. (pn_id p, p)) nodes))"

text \<open>
  The loop of \<^verbatim>\<open>RekordboxUSBExporter.playlist_path\<close>. \<open>cur\<close> is the node the loop looks
  at (\<open>None\<close> when \<^verbatim>\<open>id_to_node.get\<close> found nothing), \<open>visited\<close> the set of ids seen and
  \<open>parts\<close> the names collected so far.
\<close>

function playlist_path_loop ::
  "PlaylistNode list \<Rightarrow> PlaylistNode option \<Rightarrow> string set \<Rightarrow> string list \<Rightarrow> string list" where
  "playlist_path_loop nodes cur visited ps =
     (case cur of
        None \<Rightarrow> ps
      | Some c \<Rightarrow>
          if pn_id c \<in> visited then ps
          else (case pn_parent_id c of
                  None \<Rightarrow> ps @ [pn_name c]
                | Some q \<Rightarrow>
                    if q = [] \<or> q = ''root'' then ps @ [pn_name c]
                    else playlist_path_loop nodes (id_to_node nodes q)
                           (insert (pn_id c) visited) (ps @ [pn_name c])))"
  by pat_completeness auto

lemma id_to_node_SomeD:
  "id_to_node nodes k = Some c \<Longrightarrow> c \<in> set nodes \<and> pn_id c = k"
  by (auto simp: id_to_node_def dest!: map_of_SomeD)

definition unvisited :: "PlaylistNode list \<Rightarrow> string set \<Rightarrow> nat" where
  "unvisited nodes visited = card (pn_id ` set nodes - visited)"

lemma unvisited_insert_le: "unvisited nodes (insert i visited) \<le> unvisited nodes visited"
  unfolding unvisited_def by (rule card_mono) auto

lemma unvisited_insert_less:
  "c \<in> set nodes \<Longrightarrow> pn_id c \<notin> visited \<Longrightarrow>
   unvisited nodes (insert (pn_id c) visited) < unvisited nodes visited"
  unfolding unvisited_def by (rule psubset_card_mono) auto

termination playlist_path_loop
proof (relation "measures [\<lambda>(nodes, cur, visited, ps). unvisited nodes visited,
                           \<lambda>(nodes, cur, visited, ps). (case cur of None \<Rightarrow> 0
                              | Some c \<Rightarrow> if c \<in> set nodes then 0 else 1)]", goal_cases)
  case 1
  show ?case by simp
next
  case (2 nodes cur visited ps c q)
  show ?case
  proof (cases "c \<in> set nodes")
    case True
    with 2 show ?thesis by (simp add: unvisited_insert_less)
  next
    case False
    have le: "unvisited nodes (insert (pn_id c) visited) \<le> unvisited nodes visited"
      by (rule unvisited_insert_le)
    from 2 False le show ?thesis
      by (auto split: option.splits dest: id_to_node_SomeD)
  qed
qed

text \<open>
  \<^verbatim>\<open>playlist_path\<close> returns the directory parts (handed to \<^verbatim>\<open>Path(*parts[:-1])\<close>) and the
  display name; for an id that is not loaded it returns no directory and the id.
\<close>

definition playlist_path :: "PlaylistNode list \<Rightarrow> string \<Rightarrow> string list \<times> string" where
  "playlist_path nodes playlist_id =
     (let ps = rev (playlist_path_loop nodes (id_to_node nodes playlist_id) {} [])
      in if ps \<noteq> [] then (butlast ps, last ps) else ([], playlist_id))"

text \<open>
  The walk of \<^verbatim>\<open>RekordboxPlaylistCopier.get_all_playlists\<close>: it follows ids, not nodes,
  and stops at an id that is empty, is \<^verbatim>\<open>"root"\<close>, was visited, or is not loaded.
\<close>

function full_path_loop ::
  "PlaylistNode list \<Rightarrow> string option \<Rightarrow> string set \<Rightarrow> string list \<Rightarrow> string list" where
  "full_path_loop nodes current_id visited path_parts =
     (case current_id of
        None \<Rightarrow> path_parts
      | Some i \<Rightarrow>
          if i = [] \<or> i = ''root'' \<or> i \<in> visited then path_parts
          else (case id_to_node nodes i of
                  None \<Rightarrow> path_parts
                | Some current_node \<Rightarrow>
                    full_path_loop nodes
                      (case pn_parent_id current_node of
                         None \<Rightarrow> None
                       | Some q \<Rightarrow> if q = [] then None else Some q)
                      (insert i visited) (path_parts @ [pn_name current_node])))"
  by pat_completeness auto
termination
proof (relation "measure (\<lambda>(nodes, current_id, visited, path_parts). unvisited nodes visited)",
    goal_cases)
  case 1
  show ?case by simp
next
  case (2 nodes current_id visited path_parts i current_node)
  then have "current_node \<in> set nodes" "pn_id current_node = i"
    by (auto dest: id_to_node_SomeD)
  with 2 show ?case
    using unvisited_insert_less [of current_node nodes visited] by simp
qed



declare playlist_path_loop.simps [simp del] full_path_loop.simps [simp del]

definition full_path :: "PlaylistNode list \<Rightarrow> PlaylistNode \<Rightarrow> string" where
  "full_path nodes node =
     (let path_parts = rev (full_path_loop nodes (Some (pn_id node)) {} [])
      in if path_parts \<noteq> [] then join '' / '' path_parts else pn_name node)"

definition cyclic_nodes :: "PlaylistNode list" where
  "cyclic_nodes =
     [\<lparr>pn_id = ''1'', pn_name = ''A'', pn_parent_id = Some ''2''\<rparr>,
      \<lparr>pn_id = ''2'', pn_name = ''B'', pn_parent_id = Some ''1''\<rparr>,
      \<lparr>pn_id = ''3'', pn_name = ''C'', pn_parent_id = Some ''404''\<rparr>]"

section \<open>The file system, JSON values and the library environment\<close>

text \<open>
  The file system holds the content of every regular file and the set of directories,
  both under the path values the scripts use for them; two different path values are
  two different files (no symbolic links or relative aliases among them).
\<close>

record fs =
  files :: "path \<rightharpoonup> string"
  dirs :: "path set"

text \<open>A path without components is the root or the working directory: it exists.\<close>

definition is_dir :: "fs \<Rightarrow> path \<Rightarrow> bool" where
  "is_dir f p = (tail p = [] \<or> p \<in> dirs f)"

definition path_exists :: "fs \<Rightarrow> path \<Rightarrow> bool" where
  "path_exists f p = (is_dir f p \<or> p \<in> dom (files f))"

text \<open>
  The values that \<^verbatim>\<open>json.load\<close> returns. The numbers are the integers: the scripts store
  counts and byte sizes, and no fraction.
\<close>

datatype json =
    JNull
  | JBool bool
  | JInt int
  | JStr string
  | JList "json list"
  | JDict "(string \<times> json) list"

text \<open>
  What the scripts call in the standard library and the operating system is a parameter
  of the model:
  \<^item> \<open>unquote_pct\<close>: \<^verbatim>\<open>urllib.parse.unquote\<close> on a string that contains a percent sign
    (without one, \<^verbatim>\<open>unquote\<close> returns its argument);
  \<^item> \<open>urlparse_path\<close>: \<^verbatim>\<open>urlparse(s).path\<close>, which raises \<^verbatim>\<open>ValueError\<close> on some inputs;
  \<^item> \<open>resolve\<close>: \<^verbatim>\<open>Path.resolve()\<close>;
  \<^item> \<open>exists_raises\<close>: the \<^verbatim>\<open>OSError\<close> that \<^verbatim>\<open>Path.exists()\<close> lets through for a path
    (it answers \<^verbatim>\<open>False\<close> only for a missing path or a missing directory on the way; a
    name longer than the file system allows, for one, raises);
  \<^item> \<open>tmpname\<close>: the file name \<^verbatim>\<open>tempfile.NamedTemporaryFile\<close> picks in a directory;
  \<^item> \<open>write_denied\<close>: the directories in which the process may not create a file;
  \<^item> \<open>json_loads\<close>, \<open>json_dumps\<close>: the \<^verbatim>\<open>json\<close> module;
  \<^item> \<open>now\<close>, \<open>now_iso\<close>: the time of \<^verbatim>\<open>datetime.now()\<close> during the run, as \<^verbatim>\<open>strftime\<close>
    and as \<^verbatim>\<open>isoformat\<close> write it;
  \<^item> \<open>float_max_int\<close>: the integers from which on the division by \<^verbatim>\<open>1024**3\<close> has no
    floating-point result, \<open>2^1054 - 2^1000\<close> for IEEE doubles;
  \<^item> \<open>getcwd\<close>: the working directory, an absolute path;
  \<^item> \<open>dir_size\<close>: the \<^verbatim>\<open>st_size\<close> that \<^verbatim>\<open>stat\<close> reports for a directory.
\<close>

record env =
  unquote_pct :: "string \<Rightarrow> string"
  urlparse_path :: "string \<Rightarrow> exn + string"
  resolve :: "path \<Rightarrow> exn + path"
  exists_raises :: "path \<Rightarrow> exn option"
  tmpname :: "fs \<Rightarrow> path \<Rightarrow> string"
  write_denied :: "path \<Rightarrow> bool"
  json_loads :: "string \<Rightarrow> exn + json"
  json_dumps :: "json \<Rightarrow> string"
  now :: string
  now_iso :: string
  float_max_int :: int
  getcwd :: string
  dir_size :: "path \<Rightarrow> nat"

section \<open>Resolving the stored file references\<close>

definition unquote :: "env \<Rightarrow> string \<Rightarrow> string" where
  "unquote e s = (if CHR ''%'' \<notin> set s then s else unquote_pct e s)"

text \<open>
  The folder part of both resolvers: a \<^verbatim>\<open>file://\<close> URL is parsed and the path of the URL
  (or, when that is empty, the text after the scheme) is percent-decoded.
\<close>

definition file_url_path :: "env \<Rightarrow> string \<Rightarrow> exn + string" where
  "file_url_path e folder =
     (case urlparse_path e folder of
        Inl x \<Rightarrow> Inl x
      | Inr parsed_path \<Rightarrow>
          Inr (unquote e (if parsed_path \<noteq> [] then parsed_path else drop 7 folder)))"

subsection \<open>\<^verbatim>\<open>normalize_rekordbox_path\<close> of copy\_rekordbox\_playlists\_to\_usb.py\<close>

text \<open>The branch \<^verbatim>\<open>if folder_path: ... else: full_path = filename\<close>.\<close>

definition construct_full_path :: "string \<Rightarrow> string \<Rightarrow> string" where
  "construct_full_path folder_path0 filename =
     (if folder_path0 \<noteq> [] then
        (let folder_path =
               (if \<not> endswith folder_path0 ''/'' then folder_path0 @ ''/'' else folder_path0)
         in if endswith folder_path (''/'' @ filename) then rstrip_slash folder_path
            else if endswith folder_path (filename @ ''/'' @ filename)
              then rstrip_slash (replace (''/'' @ filename) [] folder_path)
            else if contains (''/'' @ filename @ ''/'') folder_path
              then hd (split (''/'' @ filename @ ''/'') folder_path) @ ''/'' @ filename
            else folder_path @ filename)
      else filename)"

text \<open>
  The \<^verbatim>\<open>try\<close> block, on the stripped arguments, in three parts: the folder path
  (\<open>folder_path_of\<close>, where \<^verbatim>\<open>urlparse\<close> can raise), the full path
  (\<open>construct_full_path\<close>), and the lines from \<^verbatim>\<open>path = Path(full_path)\<close> to the
  \<^verbatim>\<open>return\<close> (\<open>existing_or_plain\<close>, where \<^verbatim>\<open>exists\<close> and \<^verbatim>\<open>resolve\<close> can raise).
  \<open>try_exists\<close> is \<^verbatim>\<open>path.exists()\<close> as called there.
\<close>

definition folder_path_of :: "env \<Rightarrow> string \<Rightarrow> exn + string" where
  "folder_path_of e folder =
     (if startswith folder ''file://'' then file_url_path e folder
      else Inr (if folder \<noteq> [] then unquote e folder else []))"

definition try_exists :: "env \<Rightarrow> fs \<Rightarrow> path \<Rightarrow> exn + bool" where
  "try_exists e f p = (case exists_raises e p of Some x \<Rightarrow> Inl x | None \<Rightarrow> Inr (path_exists f p))"

text \<open>\<^verbatim>\<open>full_path\<close> with every backslash replaced by a slash.\<close>

definition slashed :: "string \<Rightarrow> string" where
  "slashed full = map (\<lambda>c. if c = CHR 0x5C then CHR ''/'' else c) full"

text \<open>
  The path after the test for a Windows-style path: \<open>found\<close> is what \<^verbatim>\<open>path.exists()\<close>
  answered for \<^verbatim>\<open>Path(full_path)\<close>.
\<close>

definition candidate :: "bool \<Rightarrow> string \<Rightarrow> path" where
  "candidate found full =
     (if \<not> found \<and> CHR 0x5C \<in> set full then Path (slashed full)
      else Path full)"

definition existing_or_plain :: "env \<Rightarrow> fs \<Rightarrow> string \<Rightarrow> exn + path" where
  "existing_or_plain e f full =
     (case try_exists e f (Path full) of
        Inl x \<Rightarrow> Inl x
      | Inr found \<Rightarrow>
          (let p = candidate found full in
           case try_exists e f p of
             Inl x \<Rightarrow> Inl x
           | Inr found' \<Rightarrow> if found' then resolve e p else Inr p))"

definition normalize_rekordbox_path_try :: "env \<Rightarrow> fs \<Rightarrow> string \<Rightarrow> string \<Rightarrow> exn + path" where
  "normalize_rekordbox_path_try e f folder filename0 =
     (case folder_path_of e folder of
        Inl x \<Rightarrow> Inl x
      | Inr folder_path \<Rightarrow>
          existing_or_plain e f (construct_full_path folder_path (unquote e filename0)))"

text \<open>
  \<^verbatim>\<open>normalize_rekordbox_path\<close> returns \<^verbatim>\<open>None\<close> for an empty file name and when anything in
  the \<^verbatim>\<open>try\<close> block raises (the handler prints a warning and returns).
\<close>

definition normalize_rekordbox_path :: "env \<Rightarrow> fs \<Rightarrow> string \<Rightarrow> string \<Rightarrow> path option" where
  "normalize_rekordbox_path e f folder0 filename0 =
     (let folder = strip folder0; filename = strip filename0 in
      if filename = [] then None
      else (case normalize_rekordbox_path_try e f folder filename of
              Inl x \<Rightarrow> None
            | Inr p \<Rightarrow> Some p))"

subsection \<open>\<^verbatim>\<open>_normalize_rb_path\<close> of export\_rekordbox\_playlists\_to\_usb.py\<close>

text \<open>
  Here \<^verbatim>\<open>urlparse\<close> is called outside any \<^verbatim>\<open>try\<close>; only \<^verbatim>\<open>resolve\<close> is guarded, and
  the unresolved path is the fallback.
\<close>

definition normalize_rb_path :: "env \<Rightarrow> string \<Rightarrow> string \<Rightarrow> exn + path" where
  "normalize_rb_path e folder0 name0 =
     (let folder = strip folder0; nm = unquote e (strip name0) in
      case (if startswith folder ''file://'' then file_url_path e folder
            else Inr (unquote e folder)) of
        Inl x \<Rightarrow> Inl x
      | Inr folder_path0 \<Rightarrow>
          (let folder_path =
                 (if folder_path0 \<noteq> [] \<and> \<not> endswith folder_path0 ''/''
                  then folder_path0 @ ''/'' else folder_path0);
               full = (if endswith folder_path (''/'' @ nm) then folder_path
                       else folder_path @ nm)
           in Inr (case resolve e (Path full) of Inl x \<Rightarrow> Path full | Inr p \<Rightarrow> p)))"

text \<open>
  An environment and a file system for the examples: no file exists, nothing is a
  symbolic link (\<open>resolve\<close> returns its argument), and the library calls succeed.
\<close>

definition empty_fs :: fs where
  "empty_fs = \<lparr>files = Map.empty, dirs = {}\<rparr>"

definition plain_env :: env where
  "plain_env =
     \<lparr>unquote_pct = (\<lambda>s. s),
      urlparse_path = (\<lambda>s. Inr (drop 7 s)),
      resolve = (\<lambda>p. Inr p),
      exists_raises = (\<lambda>p. None),
      tmpname = (\<lambda>f d. ''tmp00000000''),
      write_denied = (\<lambda>d. False),
      json_loads = (\<lambda>s. Inl JSONDecodeError),
      json_dumps = (\<lambda>j. ''{}''),
      now = ''2025-01-01 00:00:00'',
      now_iso = ''2025-01-01T00:00:00'',
      float_max_int = 2 ^ 1054 - 2 ^ 1000,
      getcwd = ''/'',
      dir_size = (\<lambda>d. 4096)\<rparr>"

text \<open>
  Two environments in which a library call raises: \<^verbatim>\<open>urlparse\<close> rejects a URL with an
  unclosed bracket, and \<^verbatim>\<open>exists\<close> raises for a name of more than 255 characters.
\<close>

definition bracket_env :: env where
  "bracket_env =
     plain_env\<lparr>urlparse_path := (\<lambda>s. if CHR ''['' \<in> set s \<and> CHR '']'' \<notin> set s
                                      then Inl ValueError else Inr (drop 7 s))\<rparr>"

definition name_max_env :: env where
  "name_max_env =
     plain_env\<lparr>exists_raises := (\<lambda>p. if list_ex (\<lambda>c. 255 < length c) (tail p)
                                      then Some OSError else None)\<rparr>"


section \<open>Playlist manifests\<close>

subsection \<open>\<^verbatim>\<open>os.path.relpath\<close>\<close>

text \<open>
  \<^verbatim>\<open>os.path.relpath(path, start)\<close> is called with two \<^verbatim>\<open>Path\<close> objects. It makes both
  absolute and normal (\<^verbatim>\<open>abspath\<close>), splits them into components, drops the common
  prefix, and climbs with one \<^verbatim>\<open>..\<close> for every component that is left of \<open>start\<close>.
  The model works on the components \<^verbatim>\<open>pathlib\<close> has split already.
  The roots of a run are resolved, so both paths of a call are absolute and the working
  directory is not asked for; for a relative path the model takes it from \<open>getcwd\<close>.
  \<^verbatim>\<open>relpath\<close> on two \<^verbatim>\<open>Path\<close> objects then raises nothing, and the handler that
  \<^verbatim>\<open>create_m3u8_playlist\<close> has around it is not reached.
  \<open>normpath_step\<close> is one round of the loop of \<^verbatim>\<open>posixpath.normpath\<close>.
\<close>

definition normpath_step :: "bool \<Rightarrow> string list \<Rightarrow> string \<Rightarrow> string list" where
  "normpath_step initial_slashes new_comps c =
     (if c = [] \<or> c = ''.'' then new_comps
      else if c \<noteq> ''..'' \<or> (\<not> initial_slashes \<and> new_comps = [])
              \<or> (new_comps \<noteq> [] \<and> last new_comps = ''..'')
        then new_comps @ [c]
      else if new_comps \<noteq> [] then butlast new_comps
      else new_comps)"

definition normpath_comps :: "bool \<Rightarrow> string list \<Rightarrow> string list" where
  "normpath_comps initial_slashes comps = foldl (normpath_step initial_slashes) [] comps"

definition abspath_comps :: "env \<Rightarrow> path \<Rightarrow> string list" where
  "abspath_comps e p =
     normpath_comps True ((if root p = [] then tail (Path (getcwd e)) else []) @ tail p)"

fun commonprefix :: "string list \<Rightarrow> string list \<Rightarrow> string list" where
  "commonprefix (x # xs) (y # ys) = (if x = y then x # commonprefix xs ys else [])"
| "commonprefix xs ys = []"

definition relpath_list :: "env \<Rightarrow> path \<Rightarrow> path \<Rightarrow> string list" where
  "relpath_list e p start =
     (let start_list = abspath_comps e start;
          path_list = abspath_comps e p;
          i = length (commonprefix start_list path_list)
      in replicate (length start_list - i) ''..'' @ drop i path_list)"

definition relpath :: "env \<Rightarrow> path \<Rightarrow> path \<Rightarrow> string" where
  "relpath e p start =
     (let rel_list = relpath_list e p start
      in if rel_list = [] then ''.'' else join ''/'' rel_list)"


subsection \<open>\<^verbatim>\<open>create_m3u8_playlist\<close> of copy\_rekordbox\_playlists\_to\_usb.py\<close>

record PlaylistInfo =
  pl_id :: string
  pl_name :: string
  pl_parent_id :: "string option"
  pl_full_path :: string
  pl_track_count :: nat
  pl_is_smart :: bool
  pl_is_folder :: bool

record TrackInfo =
  title :: string
  artist :: string
  original_path :: path
  relative_path :: string
  file_size :: nat
  exists :: bool

definition m3u8_entry :: "env \<Rightarrow> path \<Rightarrow> TrackInfo \<times> path \<Rightarrow> string list" where
  "m3u8_entry e playlist_file td =
     (case td of (track, dest_path) \<Rightarrow>
        [''#EXTINF:-1,'' @ artist track @ '' - '' @ title track,
         relpath e dest_path (parent playlist_file)])"

definition m3u8_lines :: "env \<Rightarrow> PlaylistInfo \<Rightarrow> (TrackInfo \<times> path) list \<Rightarrow> path \<Rightarrow> string list" where
  "m3u8_lines e playlist tracks playlist_file =
     [''#EXTM3U'',
      ''# '' @ pl_name playlist,
      ''# Exported from Rekordbox on '' @ now e,
      ''# Original path: '' @ pl_full_path playlist,
      []]
     @ concat (map (m3u8_entry e playlist_file) tracks)"

definition m3u8_content :: "env \<Rightarrow> PlaylistInfo \<Rightarrow> (TrackInfo \<times> path) list \<Rightarrow> path \<Rightarrow> string" where
  "m3u8_content e playlist tracks playlist_file =
     join [CHR 0x0A] (m3u8_lines e playlist tracks playlist_file) @ [CHR 0x0A]"

subsection \<open>\<^verbatim>\<open>build_m3u8\<close> of export\_rekordbox\_playlists\_to\_usb.py\<close>

definition build_m3u8_entry :: "string \<times> path \<Rightarrow> string list" where
  "build_m3u8_entry ta =
     (case ta of (ttl, abs_path) \<Rightarrow>
        [''#EXTINF:0,'' @ (if ttl \<noteq> [] then ttl else name abs_path), str abs_path])"

definition build_m3u8_lines :: "string \<Rightarrow> (string \<times> path) list \<Rightarrow> string list" where
  "build_m3u8_lines playlist_name tracks =
     [''#EXTM3U'', ''# '' @ playlist_name @ '' - Exported from Rekordbox'']
     @ concat (map build_m3u8_entry tracks)"

definition build_m3u8 :: "string \<Rightarrow> (string \<times> path) list \<Rightarrow> string" where
  "build_m3u8 playlist_name tracks =
     join [CHR 0x0A] (build_m3u8_lines playlist_name tracks) @ [CHR 0x0A]"

text \<open>
  Components as \<^verbatim>\<open>pathlib\<close> keeps them after \<^verbatim>\<open>resolve()\<close>: not empty, no slash inside,
  neither \<^verbatim>\<open>.\<close> nor \<^verbatim>\<open>..\<close>.
\<close>

definition plain_comps :: "string list \<Rightarrow> bool" where
  "plain_comps cs = list_all (\<lambda>c. c \<noteq> [] \<and> c \<noteq> ''.'' \<and> c \<noteq> ''..'' \<and> CHR ''/'' \<notin> set c) cs"




section \<open>Atomic writes\<close>

subsection \<open>The file-system calls\<close>

text \<open>
  Every call returns the file system it leaves behind together with its outcome, since
  a call that raises may already have changed something (a created directory, an
  orphaned temporary file).
\<close>

definition os_mkdir :: "env \<Rightarrow> fs \<Rightarrow> path \<Rightarrow> exn + fs" where
  "os_mkdir e f d =
     (if path_exists f d then Inl FileExistsError
      else if is_dir f (parent d) then
        (if write_denied e (parent d) then Inl PermissionError
         else Inr (f\<lparr>dirs := insert d (dirs f)\<rparr>))
      else if parent d \<in> dom (files f) then Inl NotADirectoryError
      else Inl FileNotFoundError)"

text \<open>\<^verbatim>\<open>d.mkdir(parents=True, exist_ok=True)\<close>.\<close>

function mkdir_parents :: "env \<Rightarrow> fs \<Rightarrow> path \<Rightarrow> fs \<times> exn option" where
  "mkdir_parents e f d =
     (case os_mkdir e f d of
        Inr f' \<Rightarrow> (f', None)
      | Inl x \<Rightarrow>
          if x = FileNotFoundError then
            (if tail d = [] then (f, Some x)
             else (case mkdir_parents e f (parent d) of
                     (f1, Some y) \<Rightarrow> (f1, Some y)
                   | (f1, None) \<Rightarrow>
                       (case os_mkdir e f1 d of
                          Inr f2 \<Rightarrow> (f2, None)
                        | Inl y \<Rightarrow>
                            if y \<noteq> FileNotFoundError \<and> is_dir f1 d then (f1, None)
                            else (f1, Some y))))
          else if is_dir f d then (f, None)
          else (f, Some x))"
  by pat_completeness auto
termination
  by (relation "measure (\<lambda>(e, f, d). length (tail d))") (auto simp: parent_def)

declare mkdir_parents.simps [simp del]

text \<open>
  \<^verbatim>\<open>tempfile.NamedTemporaryFile(delete=False, dir=d)\<close> creates an empty file under a name
  that does not exist in \<open>d\<close> (it opens with \<^verbatim>\<open>O_EXCL\<close>); a name that exists stands for
  the failure after the last retry.
\<close>

definition mktemp :: "env \<Rightarrow> fs \<Rightarrow> path \<Rightarrow> exn + path \<times> fs" where
  "mktemp e f d =
     (let tmp = PosixPath (root d) (tail d @ [tmpname e f d])
      in if \<not> is_dir f d then Inl FileNotFoundError
         else if write_denied e d then Inl PermissionError
         else if path_exists f tmp then Inl FileExistsError
         else Inr (tmp, f\<lparr>files := (files f)(tmp \<mapsto> [])\<rparr>))"

text \<open>\<^verbatim>\<open>os.replace(src, dst)\<close>, the rename.\<close>

definition os_replace :: "fs \<Rightarrow> path \<Rightarrow> path \<Rightarrow> exn + fs" where
  "os_replace f src dst =
     (case files f src of
        None \<Rightarrow> Inl FileNotFoundError
      | Some c \<Rightarrow>
          if src = dst then Inr f
          else if is_dir f dst then Inl IsADirectoryError
          else Inr (f\<lparr>files := ((files f)(dst \<mapsto> c))(src := None)\<rparr>))"

definition st_size :: "env \<Rightarrow> fs \<Rightarrow> path \<Rightarrow> nat" where
  "st_size e f p = (case files f p of Some c \<Rightarrow> length c | None \<Rightarrow> dir_size e p)"

subsection \<open>\<^verbatim>\<open>atomic_write_text\<close>, \<^verbatim>\<open>copy_file_atomic\<close>, \<^verbatim>\<open>file_same_size\<close> (all three scripts)\<close>

definition write_bytes :: "fs \<Rightarrow> path \<Rightarrow> string \<Rightarrow> fs" where
  "write_bytes f tmp content = f\<lparr>files := (files f)(tmp \<mapsto> content)\<rparr>"

definition atomic_write_text :: "env \<Rightarrow> fs \<Rightarrow> path \<Rightarrow> string \<Rightarrow> fs \<times> exn option" where
  "atomic_write_text e f dest content =
     (case mkdir_parents e f (parent dest) of
        (f1, Some x) \<Rightarrow> (f1, Some x)
      | (f1, None) \<Rightarrow>
          (case mktemp e f1 (parent dest) of
             Inl x \<Rightarrow> (f1, Some x)
           | Inr (tmp, f2) \<Rightarrow>
               (case os_replace (write_bytes f2 tmp content) tmp dest of
                  Inl x \<Rightarrow> (write_bytes f2 tmp content, Some x)
                | Inr f3 \<Rightarrow> (f3, None))))"

text \<open>\<^verbatim>\<open>src.open("rb")\<close> raises when \<open>src\<close> is missing or a directory.\<close>

definition copy_file_atomic :: "env \<Rightarrow> fs \<Rightarrow> path \<Rightarrow> path \<Rightarrow> fs \<times> exn option" where
  "copy_file_atomic e f src dest =
     (case mkdir_parents e f (parent dest) of
        (f1, Some x) \<Rightarrow> (f1, Some x)
      | (f1, None) \<Rightarrow>
          (case mktemp e f1 (parent dest) of
             Inl x \<Rightarrow> (f1, Some x)
           | Inr (tmp, f2) \<Rightarrow>
               (case files f2 src of
                  None \<Rightarrow> (f2, Some (if is_dir f2 src then IsADirectoryError
                                       else FileNotFoundError))
                | Some c \<Rightarrow>
                    (case os_replace (write_bytes f2 tmp c) tmp dest of
                       Inl x \<Rightarrow> (write_bytes f2 tmp c, Some x)
                     | Inr f3 \<Rightarrow> (f3, None)))))"

text \<open>
  \<^verbatim>\<open>p.stat().st_size\<close>: for a path that does not exist \<^verbatim>\<open>stat\<close> raises
  \<^verbatim>\<open>NotADirectoryError\<close> when a regular file stands where a directory of the path should
  be, and \<^verbatim>\<open>FileNotFoundError\<close> otherwise.
\<close>

definition below_a_file :: "fs \<Rightarrow> path \<Rightarrow> bool" where
  "below_a_file f p =
     list_ex (\<lambda>n. files f (PosixPath (root p) (take n (tail p))) \<noteq> None) [0..<length (tail p)]"

definition stat_size :: "env \<Rightarrow> fs \<Rightarrow> path \<Rightarrow> exn + nat" where
  "stat_size e f p =
     (if path_exists f p then Inr (st_size e f p)
      else if below_a_file f p then Inl NotADirectoryError
      else Inl FileNotFoundError)"

text \<open>\<^verbatim>\<open>file_same_size\<close> catches \<^verbatim>\<open>FileNotFoundError\<close> only.\<close>

definition file_same_size :: "env \<Rightarrow> fs \<Rightarrow> path \<Rightarrow> path \<Rightarrow> exn + bool" where
  "file_same_size e f src dest =
     (case stat_size e f src of
        Inl x \<Rightarrow> if x = FileNotFoundError then Inr False else Inl x
      | Inr n \<Rightarrow>
          (case stat_size e f dest of
             Inl x \<Rightarrow> if x = FileNotFoundError then Inr False else Inl x
           | Inr m \<Rightarrow> Inr (n = m)))"

subsection \<open>\<^verbatim>\<open>atomic_copy_file\<close> of copy\_rekordbox\_playlists\_to\_usb.py\<close>

definition atomic_copy_file :: "env \<Rightarrow> fs \<Rightarrow> path \<Rightarrow> path \<Rightarrow> fs \<times> (exn + bool)" where
  "atomic_copy_file e f src dest =
     (if \<not> path_exists f src then (f, Inr False)
      else (case mkdir_parents e f (parent dest) of
              (f1, Some x) \<Rightarrow> (f1, Inl x)
            | (f1, None) \<Rightarrow>
                if path_exists f1 dest \<and> st_size e f1 src = st_size e f1 dest
                then (f1, Inr False)
                else (case mktemp e f1 (parent dest) of
                        Inl x \<Rightarrow> (f1, Inl x)
                      | Inr (tmp, f2) \<Rightarrow>
                          (case files f2 src of
                             None \<Rightarrow> (f2, Inl IsADirectoryError)
                           | Some c \<Rightarrow>
                               (case os_replace (write_bytes f2 tmp c) tmp dest of
                                  Inl x \<Rightarrow> (write_bytes f2 tmp c, Inl x)
                                | Inr f3 \<Rightarrow> (f3, Inr True))))))"

subsection \<open>The states a write passes through\<close>





text \<open>A file system for the examples: a USB stick with one copied track, and its source.\<close>

definition usb_fs :: fs where
  "usb_fs =
     \<lparr>files = [Path ''/Volumes/T7/X/Y/song.ext'' \<mapsto> ''abc'',
               Path ''/usb/ALLDJ_MUSIC/X/Y/song.ext'' \<mapsto> ''xyz''],
      dirs = {Path ''/Volumes'', Path ''/Volumes/T7'', Path ''/Volumes/T7/X'',
              Path ''/Volumes/T7/X/Y'', Path ''/usb'', Path ''/usb/ALLDJ_MUSIC'',
              Path ''/usb/ALLDJ_MUSIC/X'', Path ''/usb/ALLDJ_MUSIC/X/Y''}\<rparr>"


text \<open>Nothing that existed in \<open>f\<close> is missing in \<open>g\<close>.\<close>

definition fs_le :: "fs \<Rightarrow> fs \<Rightarrow> bool" where
  "fs_le f g = (dirs f \<subseteq> dirs g \<and> dom (files f) \<subseteq> dom (files g))"

section \<open>The persisted state\<close>

subsection \<open>The state dictionary\<close>

text \<open>
  \<^verbatim>\<open>self.state\<close> is whatever \<^verbatim>\<open>json.loads\<close> returned, so every access can meet a value
  that is not a dictionary. A dictionary keeps its keys in insertion order.
\<close>

fun truthy :: "json \<Rightarrow> bool" where
  "truthy JNull = False"
| "truthy (JBool b) = b"
| "truthy (JInt i) = (i \<noteq> 0)"
| "truthy (JStr s) = (s \<noteq> [])"
| "truthy (JList xs) = (xs \<noteq> [])"
| "truthy (JDict kvs) = (kvs \<noteq> [])"

text \<open>\<^verbatim>\<open>x.get(k, default)\<close>: only a dictionary has \<^verbatim>\<open>get\<close>.\<close>

definition dict_get :: "json \<Rightarrow> string \<Rightarrow> json \<Rightarrow> exn + json" where
  "dict_get x k dflt =
     (case x of
        JDict kvs \<Rightarrow> Inr (case map_of kvs k of Some v \<Rightarrow> v | None \<Rightarrow> dflt)
      | _ \<Rightarrow> Inl AttributeError)"

text \<open>\<^verbatim>\<open>x[k] = v\<close> for a string key: a list or a scalar raises \<^verbatim>\<open>TypeError\<close>.\<close>

definition set_item :: "json \<Rightarrow> string \<Rightarrow> json \<Rightarrow> exn + json" where
  "set_item x k v =
     (case x of
        JDict kvs \<Rightarrow> Inr (JDict (AList.update k v kvs))
      | _ \<Rightarrow> Inl TypeError)"

text \<open>\<^verbatim>\<open>self.state.get("playlists", {}).get(playlist_id, {})\<close>, the record of a playlist.\<close>

definition playlist_state :: "json \<Rightarrow> string \<Rightarrow> exn + json" where
  "playlist_state st playlist_id =
     (case dict_get st ''playlists'' (JDict []) of
        Inl x \<Rightarrow> Inl x
      | Inr pls \<Rightarrow> dict_get pls playlist_id (JDict []))"

text \<open>\<^verbatim>\<open>self.state.get("playlists", {}).get(playlist_id, {}).get("completed")\<close>, as a truth value.\<close>

definition playlist_completed :: "json \<Rightarrow> string \<Rightarrow> exn + bool" where
  "playlist_completed st playlist_id =
     (case dict_get st ''playlists'' (JDict []) of
        Inl x \<Rightarrow> Inl x
      | Inr pls \<Rightarrow>
          (case dict_get pls playlist_id (JDict []) of
             Inl x \<Rightarrow> Inl x
           | Inr status \<Rightarrow>
               (case dict_get status ''completed'' JNull of
                  Inl x \<Rightarrow> Inl x
                | Inr c \<Rightarrow> Inr (truthy c))))"

text \<open>\<^verbatim>\<open>self.state.setdefault("playlists", {})[playlist_id] = status\<close>.\<close>

definition set_playlist :: "json \<Rightarrow> string \<Rightarrow> json \<Rightarrow> exn + json" where
  "set_playlist st playlist_id status =
     (case st of
        JDict kvs \<Rightarrow>
          (case set_item (case map_of kvs ''playlists'' of Some pls \<Rightarrow> pls | None \<Rightarrow> JDict [])
                  playlist_id status of
             Inl x \<Rightarrow> Inl x
           | Inr pls' \<Rightarrow> Inr (JDict (AList.update ''playlists'' pls' kvs)))
      | _ \<Rightarrow> Inl AttributeError)"

text \<open>
  \<^verbatim>\<open>path.read_text(encoding="utf-8")\<close>; decoding the bytes is counted to \<open>json_loads\<close>.
\<close>

definition read_text :: "fs \<Rightarrow> path \<Rightarrow> exn + string" where
  "read_text f p =
     (case files f p of
        Some c \<Rightarrow> Inr c
      | None \<Rightarrow> Inl (if is_dir f p then IsADirectoryError else FileNotFoundError))"

subsection \<open>\<^verbatim>\<open>RekordboxUSBExporter\<close>: state of export\_rekordbox\_playlists\_to\_usb.py\<close>

record exporter_config =
  usb_root :: path
  music_dest_root :: path
  playlists_root :: path
  state_path :: path
  resume :: bool

text \<open>\<^verbatim>\<open>__init__\<close>: the paths under the USB root and the initial state.\<close>

definition exporter_init :: "path \<Rightarrow> bool \<Rightarrow> exporter_config" where
  "exporter_init root_dir res =
     \<lparr>usb_root = root_dir,
      music_dest_root = joinpath root_dir (Path ''ALLDJ_MUSIC''),
      playlists_root = joinpath root_dir (Path ''PLAYLISTS''),
      state_path = joinpath root_dir (Path ''.alldj_export_state.json''),
      resume = res\<rparr>"

definition exporter_initial_state :: json where
  "exporter_initial_state = JDict [(''version'', JInt 1), (''playlists'', JDict [])]"

record exporter =
  state :: json
  disk :: fs

definition load_state :: "env \<Rightarrow> exporter_config \<Rightarrow> exporter \<Rightarrow> exporter" where
  "load_state e cfg w =
     (if resume cfg \<and> path_exists (disk w) (state_path cfg) then
        (case read_text (disk w) (state_path cfg) of
           Inl x \<Rightarrow> w
         | Inr txt \<Rightarrow>
             (case json_loads e txt of
                Inl x \<Rightarrow> w
              | Inr v \<Rightarrow> w\<lparr>state := v\<rparr>))
      else w)"

definition save_state :: "env \<Rightarrow> exporter_config \<Rightarrow> exporter \<Rightarrow> exporter \<times> exn option" where
  "save_state e cfg w =
     (if \<not> resume cfg then (w, None)
      else (case atomic_write_text e (disk w) (state_path cfg) (json_dumps e (state w)) of
              (f, r) \<Rightarrow> (w\<lparr>disk := f\<rparr>, r)))"


subsection \<open>\<^verbatim>\<open>ResumableExporter.load_state\<close> of export\_playlists\_to\_usb.py\<close>

definition resumable_initial_state :: "path \<Rightarrow> json" where
  "resumable_initial_state base_path =
     JDict [(''version'', JInt 1), (''base_path'', JStr (str base_path)),
            (''files'', JDict []), (''playlists'', JDict [])]"

definition resumable_load_state :: "env \<Rightarrow> path \<Rightarrow> exporter \<Rightarrow> exporter" where
  "resumable_load_state e st_path w =
     (if path_exists (disk w) st_path then
        (case read_text (disk w) st_path of
           Inl x \<Rightarrow> w
         | Inr txt \<Rightarrow>
             (case json_loads e txt of
                Inl x \<Rightarrow> w
              | Inr v \<Rightarrow> w\<lparr>state := v\<rparr>))
      else w)"

subsection \<open>\<^verbatim>\<open>RekordboxPlaylistCopier\<close>: state of copy\_rekordbox\_playlists\_to\_usb.py\<close>

text \<open>
  The counters of \<^verbatim>\<open>CopyStats\<close> start as integers, but \<^verbatim>\<open>load_state\<close> copies whatever
  the state file stores under their names, so a counter is a JSON value. \<open>fields_shadow\<close>
  is the instance attribute \<^verbatim>\<open>__dataclass_fields__\<close>, which a state file can set as well
  and which \<^verbatim>\<open>asdict\<close> then reads in place of the fields of the class.
\<close>

record CopyStats =
  playlists_total :: json
  playlists_completed :: json
  playlists_skipped :: json
  playlists_failed :: json
  tracks_total :: json
  tracks_copied :: json
  tracks_skipped :: json
  tracks_failed :: json
  bytes_copied :: json
  fields_shadow :: "json option"

definition CopyStats_init :: CopyStats where
  "CopyStats_init =
     \<lparr>playlists_total = JInt 0, playlists_completed = JInt 0, playlists_skipped = JInt 0,
      playlists_failed = JInt 0, tracks_total = JInt 0, tracks_copied = JInt 0,
      tracks_skipped = JInt 0, tracks_failed = JInt 0, bytes_copied = JInt 0,
      fields_shadow = None\<rparr>"

text \<open>
  \<^verbatim>\<open>x += n\<close> for an integer \<open>n\<close>: an integer or a truth value is added to, anything
  else raises \<^verbatim>\<open>TypeError\<close>.
\<close>

definition iadd :: "json \<Rightarrow> int \<Rightarrow> exn + json" where
  "iadd v n =
     (case v of
        JInt i \<Rightarrow> Inr (JInt (i + n))
      | JBool b \<Rightarrow> Inr (JInt ((if b then 1 else 0) + n))
      | _ \<Rightarrow> Inl TypeError)"



text \<open>
  \<^verbatim>\<open>asdict\<close> lists the fields it finds in \<^verbatim>\<open>__dataclass_fields__\<close>: the nine counters, or,
  when the attribute is shadowed, nothing for an empty dictionary and an
  \<^verbatim>\<open>AttributeError\<close> for any other JSON value.
\<close>

definition asdict :: "CopyStats \<Rightarrow> exn + json" where
  "asdict s =
     (case fields_shadow s of
        None \<Rightarrow>
          Inr (JDict [(''playlists_total'', playlists_total s),
                      (''playlists_completed'', playlists_completed s),
                      (''playlists_skipped'', playlists_skipped s),
                      (''playlists_failed'', playlists_failed s),
                      (''tracks_total'', tracks_total s),
                      (''tracks_copied'', tracks_copied s),
                      (''tracks_skipped'', tracks_skipped s),
                      (''tracks_failed'', tracks_failed s),
                      (''bytes_copied'', bytes_copied s)])
      | Some v \<Rightarrow> if v = JDict [] then Inr (JDict []) else Inl AttributeError)"

text \<open>
  \<^verbatim>\<open>if hasattr(self.stats, key): setattr(self.stats, key, value)\<close>. Besides the counters
  the object has the attributes every object has. Of these \<^verbatim>\<open>__class__\<close> and
  \<^verbatim>\<open>__weakref__\<close> refuse a JSON value, \<^verbatim>\<open>__dict__\<close> takes a dictionary and replaces all
  instance attributes by it (a counter that is missing there falls back to the default
  of the class, 0), and the others are set without an effect on the counters. After an
  assignment to \<^verbatim>\<open>__dict__\<close> the attributes live in the dictionary that the state holds
  under \<^verbatim>\<open>stats\<close>, so that this entry of the state follows the counters; the model leaves
  the entry as it was loaded, since nothing reads it before \<^verbatim>\<open>save_state\<close> replaces it.
\<close>

definition from_instance_dict :: "(string \<times> json) list \<Rightarrow> CopyStats" where
  "from_instance_dict kvs =
     (let attr = (\<lambda>k. case map_of kvs k of Some v \<Rightarrow> v | None \<Rightarrow> JInt 0) in
      \<lparr>playlists_total = attr ''playlists_total'',
       playlists_completed = attr ''playlists_completed'',
       playlists_skipped = attr ''playlists_skipped'',
       playlists_failed = attr ''playlists_failed'',
       tracks_total = attr ''tracks_total'',
       tracks_copied = attr ''tracks_copied'',
       tracks_skipped = attr ''tracks_skipped'',
       tracks_failed = attr ''tracks_failed'',
       bytes_copied = attr ''bytes_copied'',
       fields_shadow = map_of kvs ''__dataclass_fields__''\<rparr>)"

definition setattr_stat :: "CopyStats \<Rightarrow> string \<Rightarrow> json \<Rightarrow> exn + CopyStats" where
  "setattr_stat s k v =
     (if k = ''playlists_total'' then Inr (s\<lparr>playlists_total := v\<rparr>)
      else if k = ''playlists_completed'' then Inr (s\<lparr>playlists_completed := v\<rparr>)
      else if k = ''playlists_skipped'' then Inr (s\<lparr>playlists_skipped := v\<rparr>)
      else if k = ''playlists_failed'' then Inr (s\<lparr>playlists_failed := v\<rparr>)
      else if k = ''tracks_total'' then Inr (s\<lparr>tracks_total := v\<rparr>)
      else if k = ''tracks_copied'' then Inr (s\<lparr>tracks_copied := v\<rparr>)
      else if k = ''tracks_skipped'' then Inr (s\<lparr>tracks_skipped := v\<rparr>)
      else if k = ''tracks_failed'' then Inr (s\<lparr>tracks_failed := v\<rparr>)
      else if k = ''bytes_copied'' then Inr (s\<lparr>bytes_copied := v\<rparr>)
      else if k = ''__dataclass_fields__'' then Inr (s\<lparr>fields_shadow := Some v\<rparr>)
      else if k = ''__class__'' then Inl TypeError
      else if k = ''__weakref__'' then Inl AttributeError
      else if k = ''__dict__'' then
        (case v of JDict kvs \<Rightarrow> Inr (from_instance_dict kvs) | _ \<Rightarrow> Inl TypeError)
      else Inr s)"

text \<open>The loop over the stored items; the first exception ends it (it is caught outside).\<close>

fun setattr_stats :: "(string \<times> json) list \<Rightarrow> CopyStats \<Rightarrow> CopyStats" where
  "setattr_stats [] s = s"
| "setattr_stats (kv # kvs) s =
     (case setattr_stat s (fst kv) (snd kv) of
        Inl x \<Rightarrow> s
      | Inr s' \<Rightarrow> setattr_stats kvs s')"

record copier_config =
  c_usb_root :: path
  c_music_root :: path
  c_playlists_root :: path
  c_state_file :: path
  c_test_mode :: bool
  c_resume :: bool
  c_base_paths :: "path list"

text \<open>
  The copier: its state dictionary, its counters, and the file system apart from the
  log file \<^verbatim>\<open>copy_log.txt\<close>, to which \<^verbatim>\<open>log\<close> appends and which nothing reads.
\<close>

record copier =
  c_state :: json
  c_stats :: CopyStats
  c_disk :: fs

definition copier_initial_state :: json where
  "copier_initial_state =
     JDict [(''version'', JInt 1), (''playlists'', JDict []), (''stats'', JDict [])]"

text \<open>
  \<^verbatim>\<open>load_state\<close> assigns \<^verbatim>\<open>self.state\<close> first and reads the stored counters after: when the
  parsed value is not a dictionary (or its \<^verbatim>\<open>stats\<close> is not one) the exception is
  swallowed with the new state already in place.
\<close>

definition copier_load_state :: "env \<Rightarrow> copier_config \<Rightarrow> copier \<Rightarrow> copier" where
  "copier_load_state e cfg w =
     (if c_resume cfg \<and> path_exists (c_disk w) (c_state_file cfg) then
        (case read_text (c_disk w) (c_state_file cfg) of
           Inl x \<Rightarrow> w
         | Inr txt \<Rightarrow>
             (case json_loads e txt of
                Inl x \<Rightarrow> w
              | Inr v \<Rightarrow>
                  (case dict_get v ''stats'' (JDict []) of
                     Inr (JDict kvs) \<Rightarrow> w\<lparr>c_state := v, c_stats := setattr_stats kvs (c_stats w)\<rparr>
                   | _ \<Rightarrow> w\<lparr>c_state := v\<rparr>)))
      else w)"

text \<open>
  \<^verbatim>\<open>save_state\<close>: \<^verbatim>\<open>asdict\<close> and the two item assignments are outside the \<^verbatim>\<open>try\<close>, the
  write is inside and its failure is only logged.
\<close>

definition copier_save_state :: "env \<Rightarrow> copier_config \<Rightarrow> copier \<Rightarrow> copier \<times> exn option" where
  "copier_save_state e cfg w =
     (if \<not> c_resume cfg then (w, None)
      else (case asdict (c_stats w) of
              Inl x \<Rightarrow> (w, Some x)
            | Inr stats \<Rightarrow>
                (case set_item (c_state w) ''stats'' stats of
                   Inl x \<Rightarrow> (w, Some x)
                 | Inr st1 \<Rightarrow>
                     (case set_item st1 ''timestamp'' (JStr (now_iso e)) of
                        Inl x \<Rightarrow> (w\<lparr>c_state := st1\<rparr>, Some x)
                      | Inr st2 \<Rightarrow>
                          (case atomic_write_text e (c_disk w) (c_state_file cfg)
                                  (json_dumps e st2) of
                             (f, r) \<Rightarrow> (w\<lparr>c_state := st2, c_disk := f\<rparr>, None))))))"

text \<open>An example: the USB stick with a state file that is not JSON.\<close>

definition corrupt_fs :: fs where
  "corrupt_fs = usb_fs\<lparr>files := (files usb_fs)(Path ''/usb/.alldj_export_state.json'' \<mapsto> ''{version: 1'')\<rparr>"

section \<open>The catalog\<close>

text \<open>
  The Rekordbox database is read through \<^verbatim>\<open>pyrekordbox\<close>; the model takes its answers as
  given: the collection nodes, the ids of the smart lists, and for a playlist id the
  content rows in track order. Each query can raise.
\<close>

record content_row =
  row_title :: string
  row_artist :: string
  row_filename :: string
  row_folder :: string

record catalog =
  get_playlist :: "exn + PlaylistNode list"
  smart_list :: "exn + string list"
  song_rows :: "string \<Rightarrow> exn + content_row list"

section \<open>copy\_rekordbox\_playlists\_to\_usb.py: the copier\<close>

definition safe_char :: "char \<Rightarrow> string" where
  "safe_char c =
     (if c = CHR ''/'' \<or> c = CHR 0x5C then ''_''
      else if c = CHR '':'' \<or> c = CHR ''|'' then ''-''
      else if c = CHR ''<'' then ''(''
      else if c = CHR ''>'' then '')''
      else if c = CHR ''?'' \<or> c = CHR ''*'' then []
      else if c = CHR 0x22 then [CHR 0x27]
      else [c])"

definition safe_filename :: "string \<Rightarrow> string" where
  "safe_filename nm = take 100 (strip (concat (map safe_char nm)))"

text \<open>\<^verbatim>\<open>Path(*segments)\<close>.\<close>

definition Path_of_segments :: "string list \<Rightarrow> path" where
  "Path_of_segments segs = foldl joinpath (PosixPath [] []) (map Path segs)"

definition is_relative_to :: "path \<Rightarrow> path \<Rightarrow> bool" where
  "is_relative_to p b = (take (length (parts b)) (parts p) = parts b)"

definition relative_to :: "path \<Rightarrow> path \<Rightarrow> path" where
  "relative_to p b = PosixPath [] (drop (length (tail b)) (tail p))"

text \<open>The exceptions that \<^verbatim>\<open>except (ValueError, OSError)\<close> catches.\<close>

definition is_ValueError_or_OSError :: "exn \<Rightarrow> bool" where
  "is_ValueError_or_OSError x =
     (x \<in> {ValueError, JSONDecodeError, UnicodeDecodeError, OSError, FileNotFoundError,
            FileExistsError, IsADirectoryError, NotADirectoryError, PermissionError})"

fun first_base :: "env \<Rightarrow> path \<Rightarrow> path list \<Rightarrow> exn + string option" where
  "first_base e source_resolved [] = Inr None"
| "first_base e source_resolved (b # bs) =
     (case resolve e b of
        Inl x \<Rightarrow> if is_ValueError_or_OSError x then first_base e source_resolved bs else Inl x
      | Inr base_resolved \<Rightarrow>
          if is_relative_to source_resolved base_resolved
          then Inr (Some (str (relative_to source_resolved base_resolved)))
          else first_base e source_resolved bs)"

definition calculate_relative_path :: "env \<Rightarrow> path \<Rightarrow> path list \<Rightarrow> exn + string" where
  "calculate_relative_path e source_path base_paths =
     (case resolve e source_path of
        Inl x \<Rightarrow> Inl x
      | Inr source_resolved \<Rightarrow>
          (case first_base e source_resolved base_paths of
             Inl x \<Rightarrow> Inl x
           | Inr (Some rel) \<Rightarrow> Inr rel
           | Inr None \<Rightarrow>
               (let ps = parts source_resolved in
                if length ps > 1 then
                  (let volume = (if startswith (ps ! 0) ''/'' then ps ! 0 else ps ! 1);
                       volume_safe = safe_filename (filter (\<lambda>c. c \<noteq> CHR ''/'') volume)
                   in Inr (volume_safe @ ''/'' @ name source_resolved))
                else Inr (name source_resolved))))"

text \<open>
  \<^verbatim>\<open>get_playlist_tracks\<close>: one \<^verbatim>\<open>try\<close> around the query and the loop, so an exception
  ends the loop and the tracks found so far are returned.
\<close>

fun tracks_of_rows :: "env \<Rightarrow> copier_config \<Rightarrow> fs \<Rightarrow> content_row list \<Rightarrow> TrackInfo list" where
  "tracks_of_rows e cfg f [] = []"
| "tracks_of_rows e cfg f (ct # rows) =
     (case normalize_rekordbox_path e f (strip (row_folder ct)) (strip (row_filename ct)) of
        None \<Rightarrow> tracks_of_rows e cfg f rows
      | Some p \<Rightarrow>
          (case calculate_relative_path e p (c_base_paths cfg) of
             Inl x \<Rightarrow> []
           | Inr rel_path \<Rightarrow>
               (case try_exists e f p of
                  Inl x \<Rightarrow> []
                | Inr found \<Rightarrow>
                    \<lparr>title = strip (if row_title ct \<noteq> [] then row_title ct else ''Unknown''),
                     artist = strip (if row_artist ct \<noteq> [] then row_artist ct else ''Unknown''),
                     original_path = p,
                     relative_path = rel_path,
                     file_size = (if found then st_size e f p else 0),
                     exists = found\<rparr>
                    # tracks_of_rows e cfg f rows)))"

definition get_playlist_tracks :: "env \<Rightarrow> copier_config \<Rightarrow> catalog \<Rightarrow> fs \<Rightarrow> string \<Rightarrow> TrackInfo list" where
  "get_playlist_tracks e cfg cat f playlist_id =
     (case song_rows cat playlist_id of
        Inl x \<Rightarrow> []
      | Inr rows \<Rightarrow> tracks_of_rows e cfg f rows)"

text \<open>
  The loop over the tracks in \<^verbatim>\<open>copy_playlist\<close>. \<open>copy_acc\<close> holds what the loop changes:
  the file system, the counters of the run, the list for the manifest and the two
  counters of the playlist. A counter that is not a number makes its \<^verbatim>\<open>+= 1\<close> raise
  \<^verbatim>\<open>TypeError\<close>; every function returns what it has changed so far together with the
  exception, if one escapes.
\<close>

record copy_acc =
  a_disk :: fs
  a_stats :: CopyStats
  copied_tracks :: "(TrackInfo \<times> path) list"
  tracks_copied_count :: nat
  tracks_failed_count :: nat

text \<open>\<^verbatim>\<open>self.stats.tracks_failed += 1; tracks_failed_count += 1\<close>.\<close>

definition count_failure :: "copy_acc \<Rightarrow> copy_acc \<times> exn option" where
  "count_failure a =
     (case iadd (tracks_failed (a_stats a)) 1 of
        Inl x \<Rightarrow> (a, Some x)
      | Inr v \<Rightarrow>
          (a\<lparr>a_stats := (a_stats a)\<lparr>tracks_failed := v\<rparr>,
             tracks_failed_count := tracks_failed_count a + 1\<rparr>, None))"

text \<open>The lines of the \<^verbatim>\<open>try\<close> block after \<^verbatim>\<open>atomic_copy_file\<close> has returned.\<close>

definition count_copy :: "copy_acc \<Rightarrow> TrackInfo \<Rightarrow> path \<Rightarrow> bool \<Rightarrow> copy_acc \<times> exn option" where
  "count_copy a track dest_path was_copied =
     (if was_copied then
        (case iadd (tracks_copied (a_stats a)) 1 of
           Inl x \<Rightarrow> (a, Some x)
         | Inr v \<Rightarrow>
             (let a1 = a\<lparr>a_stats := (a_stats a)\<lparr>tracks_copied := v\<rparr>\<rparr> in
              case iadd (bytes_copied (a_stats a1)) (int (file_size track)) of
                Inl x \<Rightarrow> (a1, Some x)
              | Inr b \<Rightarrow>
                  (a1\<lparr>a_stats := (a_stats a1)\<lparr>bytes_copied := b\<rparr>,
                      tracks_copied_count := tracks_copied_count a1 + 1,
                      copied_tracks := copied_tracks a1 @ [(track, dest_path)]\<rparr>, None)))
      else
        (case iadd (tracks_skipped (a_stats a)) 1 of
           Inl x \<Rightarrow> (a, Some x)
         | Inr v \<Rightarrow>
             (a\<lparr>a_stats := (a_stats a)\<lparr>tracks_skipped := v\<rparr>,
                copied_tracks := copied_tracks a @ [(track, dest_path)]\<rparr>, None)))"

text \<open>
  One round of the loop. \<^verbatim>\<open>except Exception\<close> catches what \<^verbatim>\<open>atomic_copy_file\<close> raises
  and what the counters inside the \<^verbatim>\<open>try\<close> raise; what the handler itself raises
  escapes.
\<close>

definition copy_track :: "env \<Rightarrow> copier_config \<Rightarrow> copy_acc \<Rightarrow> TrackInfo \<Rightarrow> copy_acc \<times> exn option" where
  "copy_track e cfg a0 track =
     (case iadd (tracks_total (a_stats a0)) 1 of
        Inl x \<Rightarrow> (a0, Some x)
      | Inr v \<Rightarrow>
          (let a = a0\<lparr>a_stats := (a_stats a0)\<lparr>tracks_total := v\<rparr>\<rparr> in
           if \<not> exists track then count_failure a
           else
             (let dest_path = joinpath (c_music_root cfg) (Path (relative_path track)) in
              case atomic_copy_file e (a_disk a) (original_path track) dest_path of
                (f, Inl x) \<Rightarrow> count_failure (a\<lparr>a_disk := f\<rparr>)
              | (f, Inr was_copied) \<Rightarrow>
                  (case count_copy (a\<lparr>a_disk := f\<rparr>) track dest_path was_copied of
                     (a1, Some x) \<Rightarrow> count_failure a1
                   | (a1, None) \<Rightarrow> (a1, None)))))"

fun copy_tracks :: "env \<Rightarrow> copier_config \<Rightarrow> copy_acc \<Rightarrow> TrackInfo list \<Rightarrow> copy_acc \<times> exn option" where
  "copy_tracks e cfg a [] = (a, None)"
| "copy_tracks e cfg a (track # rest) =
     (case copy_track e cfg a track of
        (a1, Some x) \<Rightarrow> (a1, Some x)
      | (a1, None) \<Rightarrow> copy_tracks e cfg a1 rest)"

definition playlist_file_of :: "copier_config \<Rightarrow> PlaylistInfo \<Rightarrow> path" where
  "playlist_file_of cfg playlist =
     (let safe_path = Path_of_segments (map safe_filename (split '' / '' (pl_full_path playlist)));
          playlist_dir = (if parent safe_path \<noteq> PosixPath [] []
                          then joinpath (c_playlists_root cfg) (parent safe_path)
                          else c_playlists_root cfg)
      in joinpath playlist_dir (Path (safe_filename (pl_name playlist) @ ''.m3u8'')))"

definition create_m3u8_playlist ::
  "env \<Rightarrow> fs \<Rightarrow> PlaylistInfo \<Rightarrow> (TrackInfo \<times> path) list \<Rightarrow> path \<Rightarrow> fs \<times> exn option" where
  "create_m3u8_playlist e f playlist tracks playlist_file =
     atomic_write_text e f playlist_file (m3u8_content e playlist tracks playlist_file)"

definition completed_record :: "PlaylistInfo \<Rightarrow> nat \<Rightarrow> copy_acc \<Rightarrow> path \<Rightarrow> json" where
  "completed_record playlist n_tracks a playlist_file =
     JDict [(''completed'', JBool True),
            (''name'', JStr (pl_name playlist)),
            (''tracks_total'', JInt (int n_tracks)),
            (''tracks_copied'', JInt (int (tracks_copied_count a))),
            (''tracks_failed'', JInt (int (tracks_failed_count a))),
            (''playlist_file'', JStr (str playlist_file))]"

text \<open>\<^verbatim>\<open>self.stats.playlists_skipped += 1; return result\<close>.\<close>

definition skip_playlist :: "copier \<Rightarrow> bool \<Rightarrow> copier \<times> (exn + bool)" where
  "skip_playlist w result =
     (case iadd (playlists_skipped (c_stats w)) 1 of
        Inl x \<Rightarrow> (w, Inl x)
      | Inr v \<Rightarrow> (w\<lparr>c_stats := (c_stats w)\<lparr>playlists_skipped := v\<rparr>\<rparr>, Inr result))"

text \<open>
  \<^verbatim>\<open>copy_playlist\<close> in three parts: the loop over the tracks with the manifest
  (\<open>copy_and_write\<close>, which ends with \<open>Inr False\<close> where \<^verbatim>\<open>copy_playlist\<close> returns
  \<^verbatim>\<open>False\<close> after a failed manifest, and with \<open>Inr True\<close> where it goes on), the part
  under the comment \<^verbatim>\<open># Update state\<close>, and the whole. Each returns the copier as it leaves
  it together with the returned flag or the exception that escaped.
\<close>

definition copy_and_write ::
  "env \<Rightarrow> copier_config \<Rightarrow> copier \<Rightarrow> PlaylistInfo \<Rightarrow> TrackInfo list
     \<Rightarrow> copier \<times> copy_acc \<times> (exn + bool)" where
  "copy_and_write e cfg w playlist tracks =
     (case copy_tracks e cfg
             \<lparr>a_disk = c_disk w, a_stats = c_stats w, copied_tracks = [],
              tracks_copied_count = 0, tracks_failed_count = 0\<rparr> tracks of
        (a, Some x) \<Rightarrow> (w\<lparr>c_stats := a_stats a, c_disk := a_disk a\<rparr>, a, Inl x)
      | (a, None) \<Rightarrow>
          (case (if copied_tracks a \<noteq> []
                 then create_m3u8_playlist e (a_disk a) playlist (copied_tracks a)
                        (playlist_file_of cfg playlist)
                 else (a_disk a, None)) of
             (f, r) \<Rightarrow> (w\<lparr>c_stats := a_stats a, c_disk := f\<rparr>, a, Inr (r = None))))"

definition update_state ::
  "env \<Rightarrow> copier_config \<Rightarrow> copier \<Rightarrow> PlaylistInfo \<Rightarrow> nat \<Rightarrow> copy_acc
     \<Rightarrow> copier \<times> (exn + bool)" where
  "update_state e cfg w1 playlist n_tracks a =
     (case set_playlist (c_state w1) (pl_id playlist)
             (completed_record playlist n_tracks a (playlist_file_of cfg playlist)) of
        Inl x \<Rightarrow> (w1, Inl x)
      | Inr st \<Rightarrow>
          (case iadd (playlists_completed (c_stats w1)) 1 of
             Inl x \<Rightarrow> (w1\<lparr>c_state := st\<rparr>, Inl x)
           | Inr v \<Rightarrow>
               (case copier_save_state e cfg
                       (w1\<lparr>c_state := st,
                           c_stats := (c_stats w1)\<lparr>playlists_completed := v\<rparr>\<rparr>) of
                  (w3, Some x) \<Rightarrow> (w3, Inl x)
                | (w3, None) \<Rightarrow> (w3, Inr True))))"

definition copy_playlist ::
  "env \<Rightarrow> copier_config \<Rightarrow> catalog \<Rightarrow> copier \<Rightarrow> PlaylistInfo \<Rightarrow> copier \<times> (exn + bool)" where
  "copy_playlist e cfg cat w playlist =
     (case playlist_completed (c_state w) (pl_id playlist) of
        Inl x \<Rightarrow> (w, Inl x)
      | Inr completed \<Rightarrow>
          if completed then skip_playlist w True
          else
            (let tracks = get_playlist_tracks e cfg cat (c_disk w) (pl_id playlist) in
             if tracks = [] then skip_playlist w False
             else (case copy_and_write e cfg w playlist tracks of
                     (w1, a, Inl x) \<Rightarrow> (w1, Inl x)
                   | (w1, a, Inr written) \<Rightarrow>
                       if \<not> written then (w1, Inr False)
                       else update_state e cfg w1 playlist (length tracks) a)))"

text \<open>
  \<^verbatim>\<open>print_stats\<close> formats \<^verbatim>\<open>bytes_copied / (1024**3)\<close>: the division raises \<^verbatim>\<open>TypeError\<close>
  for a value that is not a number and \<^verbatim>\<open>OverflowError\<close> for an integer whose
  quotient is too large for a float.
\<close>

definition print_stats :: "env \<Rightarrow> CopyStats \<Rightarrow> exn option" where
  "print_stats e s =
     (case bytes_copied s of
        JInt i \<Rightarrow> if \<bar>i\<bar> \<ge> float_max_int e then Some OverflowError else None
      | JBool b \<Rightarrow> None
      | _ \<Rightarrow> Some TypeError)"

text \<open>
  The loop of \<^verbatim>\<open>run\<close> over the playlists, \<open>i\<close> counting from 1. A returned \<^verbatim>\<open>False\<close> and
  an exception both count the playlist as failed, and the loop goes on. When the
  counter of failures is not a number its \<^verbatim>\<open>+= 1\<close> raises, also in the handler, and
  that exception ends the loop, as does one from \<^verbatim>\<open>print_stats\<close>, which is called after
  every tenth playlist.
\<close>

definition count_failed_playlist :: "copier \<Rightarrow> copier \<times> exn option" where
  "count_failed_playlist w =
     (case iadd (playlists_failed (c_stats w)) 1 of
        Inl x \<Rightarrow> (w, Some x)
      | Inr v \<Rightarrow> (w\<lparr>c_stats := (c_stats w)\<lparr>playlists_failed := v\<rparr>\<rparr>, None))"

fun run_playlists ::
  "env \<Rightarrow> copier_config \<Rightarrow> catalog \<Rightarrow> copier \<Rightarrow> nat \<Rightarrow> PlaylistInfo list
     \<Rightarrow> copier \<times> exn option" where
  "run_playlists e cfg cat w i [] = (w, None)"
| "run_playlists e cfg cat w i (playlist # rest) =
     (case copy_playlist e cfg cat w playlist of
        (w', r) \<Rightarrow>
          (case (if r = Inr True then (w', None) else count_failed_playlist w') of
             (w'', Some x) \<Rightarrow> (w'', Some x)
           | (w'', None) \<Rightarrow>
               (case (if i mod 10 = 0 then print_stats e (c_stats w'') else None) of
                  Some x \<Rightarrow> (w'', Some x)
                | None \<Rightarrow> run_playlists e cfg cat w'' (i + 1) rest)))"





text \<open>An example configuration of the copier and a track whose source is missing.\<close>

definition example_copier_config :: copier_config where
  "example_copier_config =
     \<lparr>c_usb_root = Path ''/usb'', c_music_root = Path ''/usb/ALLDJ_MUSIC'',
      c_playlists_root = Path ''/usb/PLAYLISTS'',
      c_state_file = Path ''/usb/.rekordbox_copy_state.json'',
      c_test_mode = False, c_resume = True, c_base_paths = [Path ''/Volumes/T7'']\<rparr>"






text \<open>
  An example catalog: playlist 7 is empty, playlist 8 holds the example track. In the
  example state the entry of playlist 7 is a number, not a dictionary.
\<close>

definition example_catalog :: catalog where
  "example_catalog =
     \<lparr>get_playlist = Inr [\<lparr>pn_id = ''7'', pn_name = ''first'', pn_parent_id = None\<rparr>,
                          \<lparr>pn_id = ''8'', pn_name = ''second'', pn_parent_id = None\<rparr>],
      smart_list = Inr [],
      song_rows = (\<lambda>playlist_id.
         Inr [\<lparr>row_title = ''Song'', row_artist = ''Artist'', row_filename = ''song.ext'',
               row_folder = ''/Volumes/T7/X/Y/''\<rparr>])\<rparr>"

definition playlist_seven :: PlaylistInfo where
  "playlist_seven =
     \<lparr>pl_id = ''7'', pl_name = ''first'', pl_parent_id = Some ''None'', pl_full_path = ''first'',
      pl_track_count = 1, pl_is_smart = False, pl_is_folder = False\<rparr>"

definition playlist_eight :: PlaylistInfo where
  "playlist_eight =
     \<lparr>pl_id = ''8'', pl_name = ''second'', pl_parent_id = Some ''None'', pl_full_path = ''second'',
      pl_track_count = 1, pl_is_smart = False, pl_is_folder = False\<rparr>"

definition odd_copier :: copier where
  "odd_copier =
     \<lparr>c_state = JDict [(''version'', JInt 1), (''playlists'', JDict [(''7'', JInt 5)])],
      c_stats = CopyStats_init, c_disk = usb_fs\<rparr>"

text \<open>
  Two copiers that loaded odd counters: in the first the counter of completed playlists
  is a string, in the second the counter of failed playlists is \<^verbatim>\<open>null\<close> (and the entry
  of playlist 7 is a number, as before).
\<close>

definition stuck_copier :: copier where
  "stuck_copier =
     \<lparr>c_state = JDict [(''version'', JInt 1),
                       (''playlists'', JDict [(''7'', JDict [(''completed'', JBool False)])])],
      c_stats = CopyStats_init\<lparr>playlists_completed := JStr ''x''\<rparr>, c_disk = usb_fs\<rparr>"

definition lost_copier :: copier where
  "lost_copier = odd_copier\<lparr>c_stats := CopyStats_init\<lparr>playlists_failed := JNull\<rparr>\<rparr>"

section \<open>export\_rekordbox\_playlists\_to\_usb.py: the exporter\<close>

text \<open>
  \<^verbatim>\<open>str.lower()\<close>: below 256 the capital letters are \<^verbatim>\<open>A\<close> to \<^verbatim>\<open>Z\<close> and \<^verbatim>\<open>\xc0\<close> to
  \<^verbatim>\<open>\xde\<close> without the multiplication sign \<^verbatim>\<open>\xd7\<close>; each has its small letter 32 code
  points higher.
\<close>

definition is_capital :: "nat \<Rightarrow> bool" where
  "is_capital n = ((65 \<le> n \<and> n \<le> 90) \<or> (192 \<le> n \<and> n \<le> 222 \<and> n \<noteq> 215))"

definition lower :: "string \<Rightarrow> string" where
  "lower s = map (\<lambda>c. if is_capital (of_char c) then char_of (of_char c + 32 :: nat) else c) s"

definition map_src_to_usb_tree :: "path \<Rightarrow> path \<Rightarrow> path" where
  "map_src_to_usb_tree music_root src_abs =
     (let ps = filter (\<lambda>p. p \<noteq> []) (parts src_abs);
          rel = (if ps \<noteq> [] \<and> hd ps = ''/'' then Path_of_segments (tl ps)
                 else Path_of_segments ps)
      in joinpath music_root rel)"

text \<open>
  \<^verbatim>\<open>playlist_tracks\<close>: nothing is caught here, so the query and \<^verbatim>\<open>_normalize_rb_path\<close>
  raise through.
\<close>

fun rb_tracks :: "env \<Rightarrow> content_row list \<Rightarrow> exn + (string \<times> path) list" where
  "rb_tracks e [] = Inr []"
| "rb_tracks e (ct # rows) =
     (case normalize_rb_path e (row_folder ct) (strip (row_filename ct)) of
        Inl x \<Rightarrow> Inl x
      | Inr src \<Rightarrow>
          (case rb_tracks e rows of
             Inl x \<Rightarrow> Inl x
           | Inr ts \<Rightarrow>
               Inr ((if row_title ct \<noteq> [] then row_title ct else strip (row_filename ct), src)
                    # ts)))"

definition playlist_tracks :: "env \<Rightarrow> catalog \<Rightarrow> string \<Rightarrow> exn + (string \<times> path) list" where
  "playlist_tracks e cat playlist_id =
     (case song_rows cat playlist_id of
        Inl x \<Rightarrow> Inl x
      | Inr rows \<Rightarrow> rb_tracks e rows)"

definition checkpoint_record :: "PlaylistNode \<Rightarrow> nat \<Rightarrow> nat \<Rightarrow> json" where
  "checkpoint_record p n_tr n_copied =
     JDict [(''completed'', JBool False),
            (''tracks_total'', JInt (int n_tr)),
            (''tracks_exported'', JInt (int n_copied)),
            (''name'', JStr (pn_name p))]"

definition exported_record :: "PlaylistNode \<Rightarrow> nat \<Rightarrow> nat \<Rightarrow> path \<Rightarrow> json" where
  "exported_record p n_tr n_copied m3u8_path =
     JDict [(''completed'', JBool True),
            (''tracks_total'', JInt (int n_tr)),
            (''tracks_exported'', JInt (int n_copied)),
            (''m3u8_path'', JStr (str m3u8_path)),
            (''name'', JStr (pn_name p))]"

text \<open>\<^verbatim>\<open>self.state.setdefault("playlists", {})[p.id] = status; self.save_state()\<close>.\<close>

definition set_and_save ::
  "env \<Rightarrow> exporter_config \<Rightarrow> exporter \<Rightarrow> string \<Rightarrow> json \<Rightarrow> exporter \<times> exn option" where
  "set_and_save e cfg w playlist_id status =
     (case set_playlist (state w) playlist_id status of
        Inl x \<Rightarrow> (w, Some x)
      | Inr st \<Rightarrow> save_state e cfg (w\<lparr>state := st\<rparr>))"

text \<open>
  The loop over the tracks of one playlist. A source that does not exist is passed over;
  a copy that raises ends the loop, and the whole export, with the exception.
\<close>

record export_acc =
  x_world :: exporter
  exported :: "(string \<times> path) list"
  copied :: nat

definition copy_if_changed :: "env \<Rightarrow> fs \<Rightarrow> path \<Rightarrow> path \<Rightarrow> fs \<times> exn option" where
  "copy_if_changed e f src_abs dest_abs =
     (if \<not> path_exists f dest_abs then copy_file_atomic e f src_abs dest_abs
      else (case file_same_size e f src_abs dest_abs of
              Inl x \<Rightarrow> (f, Some x)
            | Inr same \<Rightarrow> if \<not> same then copy_file_atomic e f src_abs dest_abs else (f, None)))"

definition export_track ::
  "env \<Rightarrow> exporter_config \<Rightarrow> PlaylistNode \<Rightarrow> nat \<Rightarrow> export_acc \<Rightarrow> string \<times> path
     \<Rightarrow> export_acc \<times> exn option" where
  "export_track e cfg p n_tr acc t =
     (let src_abs = (case resolve e (snd t) of Inl x \<Rightarrow> snd t | Inr r \<Rightarrow> r);
          dest_abs = map_src_to_usb_tree (music_dest_root cfg) src_abs;
          w = x_world acc
      in case (if path_exists (disk w) src_abs then
                 (case copy_if_changed e (disk w) src_abs dest_abs of
                    (f, Some x) \<Rightarrow> (acc\<lparr>x_world := w\<lparr>disk := f\<rparr>\<rparr>, Some x)
                  | (f, None) \<Rightarrow>
                      (acc\<lparr>x_world := w\<lparr>disk := f\<rparr>,
                           exported := exported acc @ [(fst t, dest_abs)],
                           copied := copied acc + 1\<rparr>, None))
               else (acc, None)) of
           (acc1, Some x) \<Rightarrow> (acc1, Some x)
         | (acc1, None) \<Rightarrow>
             if copied acc1 mod 50 = 0 then
               (case set_and_save e cfg (x_world acc1) (pn_id p)
                       (checkpoint_record p n_tr (copied acc1)) of
                  (w', r) \<Rightarrow> (acc1\<lparr>x_world := w'\<rparr>, r))
             else (acc1, None))"

fun export_tracks ::
  "env \<Rightarrow> exporter_config \<Rightarrow> PlaylistNode \<Rightarrow> nat \<Rightarrow> export_acc \<Rightarrow> (string \<times> path) list
     \<Rightarrow> export_acc \<times> exn option" where
  "export_tracks e cfg p n_tr acc [] = (acc, None)"
| "export_tracks e cfg p n_tr acc (t # ts) =
     (case export_track e cfg p n_tr acc t of
        (acc1, Some x) \<Rightarrow> (acc1, Some x)
      | (acc1, None) \<Rightarrow> export_tracks e cfg p n_tr acc1 ts)"

text \<open>The directory of a playlist, its display name and the path of its manifest.\<close>

definition m3u8_path_of ::
  "env \<Rightarrow> exporter_config \<Rightarrow> PlaylistNode list \<Rightarrow> PlaylistNode \<Rightarrow> exn + path \<times> string \<times> path" where
  "m3u8_path_of e cfg nodes p =
     (case playlist_path nodes (pn_id p) of
        (dir_parts, display) \<Rightarrow>
          (case resolve e (joinpath (playlists_root cfg) (Path_of_segments dir_parts)) of
             Inl x \<Rightarrow> Inl x
           | Inr pl_dir \<Rightarrow>
               Inr (Path_of_segments dir_parts, display,
                    joinpath pl_dir (Path (display @ ''.m3u8'')))))"

definition filtered_out :: "string list \<Rightarrow> path \<Rightarrow> string \<Rightarrow> bool" where
  "filtered_out include_path_contains rel_dir display =
     (include_path_contains \<noteq> []
      \<and> \<not> list_ex (\<lambda>f. contains (lower f) (lower (str (joinpath rel_dir (Path display)))))
            include_path_contains)"

text \<open>
  The body of the loop of \<^verbatim>\<open>export\<close> for a playlist that has tracks and is not
  completed: from \<^verbatim>\<open>rel_dir, display = self.playlist_path(p.id)\<close> to the last
  \<^verbatim>\<open>save_state\<close>.
\<close>

definition export_playlist ::
  "env \<Rightarrow> exporter_config \<Rightarrow> PlaylistNode list \<Rightarrow> string list \<Rightarrow> exporter \<Rightarrow> PlaylistNode
     \<Rightarrow> (string \<times> path) list \<Rightarrow> exporter \<times> exn option" where
  "export_playlist e cfg nodes include_path_contains w p tr =
     (case m3u8_path_of e cfg nodes p of
        Inl x \<Rightarrow> (w, Some x)
      | Inr (rel_dir, display, m3u8_path) \<Rightarrow>
          if filtered_out include_path_contains rel_dir display then (w, None)
          else
            (case export_tracks e cfg p (length tr)
                    \<lparr>x_world = w, exported = [], copied = 0\<rparr> tr of
               (acc, Some x) \<Rightarrow> (x_world acc, Some x)
             | (acc, None) \<Rightarrow>
                 (case (if exported acc \<noteq> []
                        then atomic_write_text e (disk (x_world acc)) m3u8_path
                               (build_m3u8 display (exported acc))
                        else (disk (x_world acc), None)) of
                    (f, Some x) \<Rightarrow> ((x_world acc)\<lparr>disk := f\<rparr>, Some x)
                  | (f, None) \<Rightarrow>
                      set_and_save e cfg ((x_world acc)\<lparr>disk := f\<rparr>) (pn_id p)
                        (exported_record p (length tr) (copied acc) m3u8_path))))"

text \<open>
  The loop of \<^verbatim>\<open>export\<close> over the eligible playlists; \<open>processed\<close> counts the playlists
  with tracks. There is no \<^verbatim>\<open>try\<close> in it: the first exception ends the export.
\<close>

fun export_loop ::
  "env \<Rightarrow> exporter_config \<Rightarrow> catalog \<Rightarrow> PlaylistNode list \<Rightarrow> int option \<Rightarrow> string list
     \<Rightarrow> exporter \<Rightarrow> nat \<Rightarrow> PlaylistNode list \<Rightarrow> exporter \<times> exn option" where
  "export_loop e cfg cat nodes limit incl w processed [] = (w, None)"
| "export_loop e cfg cat nodes limit incl w processed (p # ps) =
     (if (case limit of None \<Rightarrow> False | Some l \<Rightarrow> l \<noteq> 0 \<and> int processed \<ge> l) then (w, None)
      else (case playlist_tracks e cat (pn_id p) of
              Inl x \<Rightarrow> (w, Some x)
            | Inr tr \<Rightarrow>
                if tr = [] then export_loop e cfg cat nodes limit incl w processed ps
                else (case playlist_completed (state w) (pn_id p) of
                        Inl x \<Rightarrow> (w, Some x)
                      | Inr completed \<Rightarrow>
                          if completed
                          then export_loop e cfg cat nodes limit incl w (processed + 1) ps
                          else (case export_playlist e cfg nodes incl w p tr of
                                  (w', Some x) \<Rightarrow> (w', Some x)
                                | (w', None) \<Rightarrow>
                                    export_loop e cfg cat nodes limit incl w' (processed + 1) ps))))"

text \<open>
  \<^verbatim>\<open>export\<close>, started on a new \<^verbatim>\<open>RekordboxUSBExporter\<close>: the state is the initial one
  until \<^verbatim>\<open>load_state\<close> replaces it. \<^verbatim>\<open>sys.exit(1)\<close> is the exception \<open>SystemExit\<close>.
\<close>

definition export ::
  "env \<Rightarrow> exporter_config \<Rightarrow> catalog \<Rightarrow> int option \<Rightarrow> string list \<Rightarrow> fs
     \<Rightarrow> exporter \<times> exn option" where
  "export e cfg cat limit incl f0 =
     (let w0 = \<lparr>state = exporter_initial_state, disk = f0\<rparr> in
      if \<not> path_exists f0 (usb_root cfg) then (w0, Some SystemExit)
      else (case mkdir_parents e f0 (music_dest_root cfg) of
              (f1, Some x) \<Rightarrow> (w0\<lparr>disk := f1\<rparr>, Some x)
            | (f1, None) \<Rightarrow>
                (case mkdir_parents e f1 (playlists_root cfg) of
                   (f2, Some x) \<Rightarrow> (w0\<lparr>disk := f2\<rparr>, Some x)
                 | (f2, None) \<Rightarrow>
                     (let w1 = load_state e cfg (w0\<lparr>disk := f2\<rparr>) in
                      case get_playlist cat of
                        Inl x \<Rightarrow> (w1, Some x)
                      | Inr nodes \<Rightarrow>
                          export_loop e cfg cat nodes limit incl w1 0
                            (filter (\<lambda>p. pn_id p \<notin>
                                 set (case smart_list cat of Inl x \<Rightarrow> [] | Inr ids \<Rightarrow> ids))
                               nodes)))))"

text \<open>
  Examples for the exporter: its configuration on the USB stick, the stick with the
  directory for the manifests, and an environment in which the music directory of the
  stick is read-only.
\<close>

definition example_exporter_config :: exporter_config where
  "example_exporter_config = exporter_init (Path ''/usb'') True"

definition readonly_music_env :: env where
  "readonly_music_env = plain_env\<lparr>write_denied := (\<lambda>d. d = Path ''/usb/ALLDJ_MUSIC'')\<rparr>"

definition example_nodes :: "PlaylistNode list" where
  "example_nodes =
     [\<lparr>pn_id = ''7'', pn_name = ''first'', pn_parent_id = None\<rparr>,
      \<lparr>pn_id = ''8'', pn_name = ''second'', pn_parent_id = None\<rparr>]"

definition fresh_exporter :: exporter where
  "fresh_exporter = \<lparr>state = exporter_initial_state, disk = usb_fs\<rparr>"















section \<open>export\_playlists\_to\_usb.py: \<^verbatim>\<open>copy_track_if_needed\<close>\<close>

record resumable_config =
  r_base_path :: path
  r_music_dest_root :: path
  r_dry_run :: bool

text \<open>
  The destination of a track: its path relative to the base path under the music root,
  or its file name alone when \<^verbatim>\<open>relative_to\<close> raises \<^verbatim>\<open>ValueError\<close>.
\<close>

definition track_dest :: "resumable_config \<Rightarrow> path \<Rightarrow> path" where
  "track_dest cfg src_abs =
     (let rel = (if is_relative_to src_abs (r_base_path cfg)
                 then relative_to src_abs (r_base_path cfg)
                 else Path (name src_abs))
      in joinpath (r_music_dest_root cfg) rel)"

definition copy_track_if_needed ::
  "env \<Rightarrow> resumable_config \<Rightarrow> fs \<Rightarrow> path \<Rightarrow> fs \<times> (exn + path option)" where
  "copy_track_if_needed e cfg f src_abs =
     (let dest_abs = track_dest cfg src_abs in
      case (if path_exists f dest_abs then file_same_size e f src_abs dest_abs
            else Inr False) of
        Inl x \<Rightarrow> (f, Inl x)
      | Inr already \<Rightarrow>
          if already then (f, Inr (Some dest_abs))
          else if \<not> path_exists f src_abs then (f, Inr None)
          else if r_dry_run cfg then (f, Inr (Some dest_abs))
          else (case copy_file_atomic e f src_abs dest_abs of
                  (f', Some x) \<Rightarrow> (f', Inl x)
                | (f', None) \<Rightarrow> (f', Inr (Some dest_abs))))"

definition example_resumable_config :: resumable_config where
  "example_resumable_config =
     \<lparr>r_base_path = Path ''/Volumes/T7'', r_music_dest_root = Path ''/usb/ALLDJ_MUSIC'',
      r_dry_run = False\<rparr>"
section \<open>Properties of the hierarchy walk\<close>

lemma unvisited_pos: "c \<in> set nodes \<Longrightarrow> pn_id c \<notin> visited \<Longrightarrow> 0 < unvisited nodes visited"
  using unvisited_insert_less [of c nodes visited] by simp

lemma playlist_path_loop_length_loaded:
  "(\<And>c. cur = Some c \<Longrightarrow> c \<in> set nodes) \<Longrightarrow>
   length (playlist_path_loop nodes cur visited ps) \<le> length ps + unvisited nodes visited"
proof (induction nodes cur visited ps rule: playlist_path_loop.induct)
  case (1 nodes cur visited ps)
  show ?case
  proof (cases cur)
    case None
    then show ?thesis by (simp add: playlist_path_loop.simps)
  next
    case (Some c)
    with 1 have c: "c \<in> set nodes" by simp
    show ?thesis
    proof (cases "pn_id c \<in> visited")
      case True
      with Some show ?thesis by (simp add: playlist_path_loop.simps)
    next
      case False
      note pos = unvisited_pos [OF c False]
      note less = unvisited_insert_less [OF c False]
      show ?thesis
      proof (cases "pn_parent_id c")
        case None
        with Some False pos show ?thesis by (simp add: playlist_path_loop.simps)
      next
        case (Some q)
        show ?thesis
        proof (cases "q = [] \<or> q = ''root''")
          case True
          with Some \<open>cur = Some c\<close> False pos show ?thesis
            by (auto simp add: playlist_path_loop.simps)
        next
          case stop: False
          have "length (playlist_path_loop nodes (id_to_node nodes q)
                  (insert (pn_id c) visited) (ps @ [pn_name c]))
                \<le> length (ps @ [pn_name c]) + unvisited nodes (insert (pn_id c) visited)"
            using "1.IH" [OF \<open>cur = Some c\<close> False Some] stop
            by (auto dest: id_to_node_SomeD)
          with less have "length (playlist_path_loop nodes (id_to_node nodes q)
                  (insert (pn_id c) visited) (ps @ [pn_name c]))
                \<le> length ps + unvisited nodes visited" by simp
          with Some \<open>cur = Some c\<close> False stop show ?thesis
            by (subst playlist_path_loop.simps) simp
        qed
      qed
    qed
  qed
qed

lemma full_path_loop_length:
  "length (full_path_loop nodes current_id visited ps) \<le> length ps + unvisited nodes visited"
proof (induction nodes current_id visited ps rule: full_path_loop.induct)
  case (1 nodes current_id visited ps)
  show ?case
  proof (cases current_id)
    case None
    then show ?thesis by (simp add: full_path_loop.simps)
  next
    case (Some i)
    show ?thesis
    proof (cases "i = [] \<or> i = ''root'' \<or> i \<in> visited")
      case True
      with Some show ?thesis by (auto simp add: full_path_loop.simps)
    next
      case go: False
      show ?thesis
      proof (cases "id_to_node nodes i")
        case None
        with Some go show ?thesis by (simp add: full_path_loop.simps)
      next
        case (Some n)
        then have n: "n \<in> set nodes" "pn_id n = i" by (auto dest: id_to_node_SomeD)
        with go have less: "unvisited nodes (insert i visited) < unvisited nodes visited"
          using unvisited_insert_less [of n nodes visited] by simp
        have "length (full_path_loop nodes
                (case pn_parent_id n of None \<Rightarrow> None | Some q \<Rightarrow> if q = [] then None else Some q)
                (insert i visited) (ps @ [pn_name n]))
              \<le> length (ps @ [pn_name n]) + unvisited nodes (insert i visited)"
          using "1.IH" [OF \<open>current_id = Some i\<close> _ Some] go by simp
        with less have "length (full_path_loop nodes
                (case pn_parent_id n of None \<Rightarrow> None | Some q \<Rightarrow> if q = [] then None else Some q)
                (insert i visited) (ps @ [pn_name n]))
              \<le> length ps + unvisited nodes visited" by simp
        with Some \<open>current_id = Some i\<close> go show ?thesis
          by (subst full_path_loop.simps) simp
      qed
    qed
  qed
qed

lemma unvisited_empty_le: "unvisited nodes {} \<le> length nodes"
  unfolding unvisited_def using card_image_le [of "set nodes" pn_id] card_length [of nodes]
  by simp

lemma playlist_path_absent_parent:
  assumes "id_to_node nodes i = Some c" "pn_parent_id c = Some q" "id_to_node nodes q = None"
  shows "playlist_path nodes i = ([], pn_name c)"
  using assms by (simp add: playlist_path_def playlist_path_loop.simps)

lemma full_path_loop_absent_parent:
  assumes "id_to_node nodes i = Some c" "i \<noteq> []" "i \<noteq> ''root''"
    "pn_parent_id c = Some q" "id_to_node nodes q = None"
  shows "full_path_loop nodes (Some i) {} [] = [pn_name c]"
  using assms by (simp add: full_path_loop.simps)

theorem hierarchy_walk_terminates:
  "length (playlist_path_loop nodes (id_to_node nodes i) {} []) \<le> length nodes
   \<and> length (full_path_loop nodes (Some i) {} []) \<le> length nodes
   \<and> (id_to_node nodes i = Some c \<and> pn_parent_id c = Some q \<and> id_to_node nodes q = None
        \<longrightarrow> playlist_path nodes i = ([], pn_name c))
   \<and> (id_to_node nodes i = Some c \<and> i \<noteq> [] \<and> i \<noteq> ''root'' \<and> pn_parent_id c = Some q
        \<and> id_to_node nodes q = None
        \<longrightarrow> full_path_loop nodes (Some i) {} [] = [pn_name c])"
proof -
  have "length (playlist_path_loop nodes (id_to_node nodes i) {} [])
          \<le> length ([] :: string list) + unvisited nodes {}"
    by (rule playlist_path_loop_length_loaded) (auto dest: id_to_node_SomeD)
  then have a: "length (playlist_path_loop nodes (id_to_node nodes i) {} []) \<le> length nodes"
    using unvisited_empty_le [of nodes] by simp
  have b: "length (full_path_loop nodes (Some i) {} []) \<le> length nodes"
    using full_path_loop_length [of nodes "Some i" "{}" "[]"] unvisited_empty_le [of nodes] by simp
  show ?thesis
    using a b playlist_path_absent_parent [of nodes i c q]
      full_path_loop_absent_parent [of nodes i c q] by blast
qed

lemma cyclic_nodes_paths:
  "playlist_path cyclic_nodes ''1'' = ([''B''], ''A'')"
  "full_path cyclic_nodes (cyclic_nodes ! 1) = ''A / B''"
  by code_simp+

theorem hierarchy_walk_terminates_witness:
  "length (playlist_path_loop cyclic_nodes (id_to_node cyclic_nodes ''3'') {} []) \<le> 3
   \<and> length (full_path_loop cyclic_nodes (Some ''3'') {} []) \<le> 3
   \<and> id_to_node cyclic_nodes ''3'' = Some (cyclic_nodes ! 2)
   \<and> pn_parent_id (cyclic_nodes ! 2) = Some ''404''
   \<and> id_to_node cyclic_nodes ''404'' = None
   \<and> playlist_path cyclic_nodes ''3'' = ([], ''C'')
   \<and> full_path_loop cyclic_nodes (Some ''3'') {} [] = [''C'']"
proof -
  have h: "id_to_node cyclic_nodes ''3'' = Some (cyclic_nodes ! 2)"
    "pn_parent_id (cyclic_nodes ! 2) = Some ''404''"
    "id_to_node cyclic_nodes ''404'' = None" "pn_name (cyclic_nodes ! 2) = ''C''"
    "length cyclic_nodes = 3"
    by (simp_all add: id_to_node_def cyclic_nodes_def)
  show ?thesis
    using hierarchy_walk_terminates [of cyclic_nodes "''3''" "cyclic_nodes ! 2" "''404''"] h
    by simp
qed

section \<open>Properties of the resolvers\<close>

lemma endswith_last:
  assumes "endswith s p" "p \<noteq> []"
  shows "s \<noteq> [] \<and> last s = last p"
proof -
  from assms have len: "length p \<le> length s" and d: "drop (length s - length p) s = p"
    by (auto simp: endswith_def)
  from len assms(2) have lt: "length s - length p < length s" by (cases p) auto
  then have "last (drop (length s - length p) s) = last s" by (rule last_drop)
  with d lt show ?thesis by auto
qed

lemma endswith_append_self [simp]: "endswith (s @ p) p"
  by (simp add: endswith_def)

text \<open>
  The guard of \<^verbatim>\<open>_normalize_rb_path\<close> against a double join is evaluated after the folder
  got its trailing slash, so for a file name that is not empty and does not end with a
  slash it never holds: the name is always appended.
\<close>

lemma normalize_rb_path_always_appends:
  assumes "strip folder = folder" "strip nm = nm" "CHR ''%'' \<notin> set folder" "CHR ''%'' \<notin> set nm"
    "\<not> startswith folder ''file://''" "folder \<noteq> []" "nm \<noteq> []" "last nm \<noteq> CHR ''/''"
  shows "normalize_rb_path e folder nm =
    (let full = (if endswith folder ''/'' then folder else folder @ ''/'') @ nm
     in Inr (case resolve e (Path full) of Inl x \<Rightarrow> Path full | Inr p \<Rightarrow> p))"
proof -
  have no_guard: "\<not> endswith fp (''/'' @ nm)" if "endswith fp ''/''" for fp
  proof
    assume "endswith fp (''/'' @ nm)"
    then have "last fp = last (''/'' @ nm)" using endswith_last by blast
    moreover have "last fp = CHR ''/''"
      using endswith_last [of fp "''/''"] that by simp
    ultimately show False using assms(7,8) by simp
  qed
  show ?thesis
  proof (cases "endswith folder ''/''")
    case True
    with no_guard [OF True] assms show ?thesis
      by (simp add: normalize_rb_path_def unquote_def Let_def)
  next
    case False
    have "endswith (folder @ ''/'') ''/''" by (rule endswith_append_self)
    from no_guard [OF this] False assms show ?thesis
      by (simp add: normalize_rb_path_def unquote_def Let_def cong: sum.case_cong)
  qed
qed

text \<open>
  C1. On the second example of the specification, a folder reference that already ends
  with the file name, \<^verbatim>\<open>_normalize_rb_path\<close> joins the name a second time and returns
  \<^verbatim>\<open>/music/Song.flac/Song.flac\<close>, while \<^verbatim>\<open>normalize_rekordbox_path\<close> returns
  \<^verbatim>\<open>/music/Song.flac\<close> on the same pair.
\<close>

theorem normalize_rb_path_double_join:
  "normalize_rb_path plain_env ''/music/Song.flac'' ''Song.flac''
     = Inr (Path ''/music/Song.flac/Song.flac'')
   \<and> str (Path ''/music/Song.flac/Song.flac'') = ''/music/Song.flac/Song.flac''
   \<and> normalize_rekordbox_path plain_env empty_fs ''/music/Song.flac'' ''Song.flac''
     = Some (Path ''/music/Song.flac'')
   \<and> Path ''/music/Song.flac/Song.flac'' \<noteq> Path ''/music/Song.flac''"
  by code_simp

lemma normalize_rekordbox_path_examples:
  "normalize_rekordbox_path plain_env empty_fs ''/music/'' ''Song.flac'' = Some (Path ''/music/Song.flac'')"
  "normalize_rekordbox_path plain_env empty_fs ''/music'' ''Song.flac'' = Some (Path ''/music/Song.flac'')"
  "normalize_rekordbox_path plain_env empty_fs ''/music/Song.flac/'' ''Song.flac'' = Some (Path ''/music/Song.flac'')"
  "normalize_rekordbox_path plain_env empty_fs ''/music/Song.flac/Song.flac'' ''Song.flac'' = Some (Path ''/music/Song.flac'')"
  "normalize_rekordbox_path plain_env empty_fs ''/music/Song.flac/cache/x'' ''Song.flac'' = Some (Path ''/music/Song.flac'')"
  "normalize_rb_path plain_env ''/music/'' ''Song.flac'' = Inr (Path ''/music/Song.flac'')"
  by code_simp+

lemma normalize_rekordbox_path_try_cases:
  assumes "folder_path_of e folder = Inr fp"
    and "full = construct_full_path fp (unquote e filename)"
    and "p = candidate (path_exists f (Path full)) full"
  shows "normalize_rekordbox_path_try e f folder filename =
     (if exists_raises e (Path full) \<noteq> None \<or> exists_raises e p \<noteq> None
      then Inl (case exists_raises e (Path full) of
                  Some x \<Rightarrow> x | None \<Rightarrow> the (exists_raises e p))
      else if path_exists f p then resolve e p else Inr p)"
  using assms
  by (auto simp: normalize_rekordbox_path_try_def existing_or_plain_def try_exists_def Let_def
      split: option.splits)

lemma folder_path_of_raises:
  "folder_path_of e folder = Inl x \<longleftrightarrow> startswith folder ''file://'' \<and> urlparse_path e folder = Inl x"
  by (auto simp: folder_path_of_def file_url_path_def split: sum.splits)

text \<open>
  C7 as amended. \<^verbatim>\<open>normalize_rekordbox_path\<close> never raises (every exception inside is
  caught), but it returns \<^verbatim>\<open>None\<close> in four cases: the file reference is empty after
  stripping; the folder is a \<^verbatim>\<open>file://\<close> URL that \<^verbatim>\<open>urlparse\<close> rejects; \<^verbatim>\<open>exists\<close> raises on
  the constructed path (or on the one with the backslashes replaced); the path exists and
  \<^verbatim>\<open>resolve\<close> raises on it. In every other case it returns a path: the resolved one when
  the path exists, the constructed one when it does not.
  \<^verbatim>\<open>_normalize_rb_path\<close> never returns \<^verbatim>\<open>None\<close>, but it raises what \<^verbatim>\<open>urlparse\<close> raises on a
  \<^verbatim>\<open>file://\<close> folder, and returns a path for every other pair.
\<close>

theorem resolve_returns_path:
  "(strip filename = [] \<longrightarrow> normalize_rekordbox_path e f folder filename = None)
   \<and> (strip filename \<noteq> [] \<and> startswith (strip folder) ''file://''
        \<and> urlparse_path e (strip folder) = Inl x
      \<longrightarrow> normalize_rekordbox_path e f folder filename = None)
   \<and> (strip filename \<noteq> [] \<and> folder_path_of e (strip folder) = Inr fp
        \<and> full = construct_full_path fp (unquote e (strip filename))
        \<and> p = candidate (path_exists f (Path full)) full
      \<longrightarrow> normalize_rekordbox_path e f folder filename =
            (if exists_raises e (Path full) \<noteq> None \<or> exists_raises e p \<noteq> None then None
             else if path_exists f p
               then (case resolve e p of Inl y \<Rightarrow> None | Inr q \<Rightarrow> Some q)
             else Some p))
   \<and> (startswith (strip folder) ''file://'' \<and> urlparse_path e (strip folder) = Inl x
      \<longrightarrow> normalize_rb_path e folder filename = Inl x)
   \<and> (\<not> startswith (strip folder) ''file://'' \<or> (\<exists>v. urlparse_path e (strip folder) = Inr v)
      \<longrightarrow> (\<exists>q. normalize_rb_path e folder filename = Inr q))"
proof (intro conjI impI)
  assume "strip filename = []"
  then show "normalize_rekordbox_path e f folder filename = None"
    by (simp add: normalize_rekordbox_path_def)
next
  assume a: "strip filename \<noteq> [] \<and> startswith (strip folder) ''file://''
        \<and> urlparse_path e (strip folder) = Inl x"
  then have "folder_path_of e (strip folder) = Inl x" by (simp add: folder_path_of_raises)
  with a show "normalize_rekordbox_path e f folder filename = None"
    by (simp add: normalize_rekordbox_path_def normalize_rekordbox_path_try_def)
next
  assume a: "strip filename \<noteq> [] \<and> folder_path_of e (strip folder) = Inr fp
        \<and> full = construct_full_path fp (unquote e (strip filename))
        \<and> p = candidate (path_exists f (Path full)) full"
  then have t: "normalize_rekordbox_path_try e f (strip folder) (strip filename) =
     (if exists_raises e (Path full) \<noteq> None \<or> exists_raises e p \<noteq> None
      then Inl (case exists_raises e (Path full) of
                  Some x \<Rightarrow> x | None \<Rightarrow> the (exists_raises e p))
      else if path_exists f p then resolve e p else Inr p)"
    by (intro normalize_rekordbox_path_try_cases) auto
  from a show "normalize_rekordbox_path e f folder filename =
            (if exists_raises e (Path full) \<noteq> None \<or> exists_raises e p \<noteq> None then None
             else if path_exists f p
               then (case resolve e p of Inl y \<Rightarrow> None | Inr q \<Rightarrow> Some q)
             else Some p)"
    unfolding normalize_rekordbox_path_def Let_def t by (simp split: sum.splits)
next
  assume "startswith (strip folder) ''file://'' \<and> urlparse_path e (strip folder) = Inl x"
  then show "normalize_rb_path e folder filename = Inl x"
    by (simp add: normalize_rb_path_def Let_def file_url_path_def)
next
  assume "\<not> startswith (strip folder) ''file://'' \<or> (\<exists>v. urlparse_path e (strip folder) = Inr v)"
  then show "\<exists>q. normalize_rb_path e folder filename = Inr q"
    by (auto simp: normalize_rb_path_def Let_def file_url_path_def split: sum.splits)
qed

theorem resolve_returns_path_witness:
  "normalize_rekordbox_path plain_env empty_fs ''/music/'' '' '' = None
   \<and> normalize_rekordbox_path bracket_env empty_fs ''file://[x/'' ''Song.flac'' = None
   \<and> normalize_rb_path bracket_env ''file://[x/'' ''Song.flac'' = Inl ValueError
   \<and> normalize_rekordbox_path name_max_env empty_fs ''/music/'' (replicate 256 CHR ''a'') = None
   \<and> normalize_rekordbox_path plain_env empty_fs ''/music/'' ''Song.flac''
       = Some (Path ''/music/Song.flac'')
   \<and> normalize_rekordbox_path plain_env usb_fs ''/Volumes/T7/X/Y'' ''song.ext''
       = Some (Path ''/Volumes/T7/X/Y/song.ext'')
   \<and> (\<exists>q. normalize_rb_path plain_env ''/music/'' ''Song.flac'' = Inr q)"
proof -
  have 1: "normalize_rekordbox_path plain_env empty_fs ''/music/'' '' '' = None"
    using resolve_returns_path [where filename = "'' ''" and e = plain_env and f = empty_fs
        and folder = "''/music/''"]
    by (simp add: strip_def py_isspace_def)
  have h2: "strip ''Song.flac'' \<noteq> []" "startswith (strip ''file://[x/'') ''file://''"
    "urlparse_path bracket_env (strip ''file://[x/'') = Inl ValueError"
    by code_simp+
  note i2 = resolve_returns_path [where filename = "''Song.flac''" and e = bracket_env
        and f = empty_fs and folder = "''file://[x/''" and x = ValueError]
  from i2 h2 have 2: "normalize_rekordbox_path bracket_env empty_fs ''file://[x/'' ''Song.flac'' = None"
    by blast
  from i2 h2 have 3: "normalize_rb_path bracket_env ''file://[x/'' ''Song.flac'' = Inl ValueError"
    by blast
  let ?long = "replicate 256 CHR ''a''"
  have h4: "strip ?long \<noteq> []" "folder_path_of name_max_env (strip ''/music/'') = Inr ''/music/''"
    "exists_raises name_max_env
       (Path (construct_full_path ''/music/'' (unquote name_max_env (strip ?long)))) = Some OSError"
    by code_simp+
  from resolve_returns_path [where filename = ?long and e = name_max_env and f = empty_fs
        and folder = "''/music/''" and fp = "''/music/''"
        and full = "construct_full_path ''/music/'' (unquote name_max_env (strip ?long))"
        and p = "candidate (path_exists empty_fs
                   (Path (construct_full_path ''/music/'' (unquote name_max_env (strip ?long)))))
                   (construct_full_path ''/music/'' (unquote name_max_env (strip ?long)))"] h4
  have 4: "normalize_rekordbox_path name_max_env empty_fs ''/music/'' ?long = None"
    by simp
  have h5: "strip ''Song.flac'' \<noteq> []" "folder_path_of plain_env (strip ''/music/'') = Inr ''/music/''"
    "construct_full_path ''/music/'' (unquote plain_env (strip ''Song.flac'')) = ''/music/Song.flac''"
    "candidate (path_exists empty_fs (Path ''/music/Song.flac'')) ''/music/Song.flac''
       = Path ''/music/Song.flac''"
    "exists_raises plain_env (Path ''/music/Song.flac'') = None"
    "\<not> path_exists empty_fs (Path ''/music/Song.flac'')"
    by code_simp+
  from resolve_returns_path [where filename = "''Song.flac''" and e = plain_env and f = empty_fs
        and folder = "''/music/''" and fp = "''/music/''" and full = "''/music/Song.flac''"
        and p = "Path ''/music/Song.flac''"] h5
  have 5: "normalize_rekordbox_path plain_env empty_fs ''/music/'' ''Song.flac''
       = Some (Path ''/music/Song.flac'')"
    by simp
  have h6: "strip ''song.ext'' \<noteq> []"
    "folder_path_of plain_env (strip ''/Volumes/T7/X/Y'') = Inr ''/Volumes/T7/X/Y''"
    "construct_full_path ''/Volumes/T7/X/Y'' (unquote plain_env (strip ''song.ext''))
       = ''/Volumes/T7/X/Y/song.ext''"
    "candidate (path_exists usb_fs (Path ''/Volumes/T7/X/Y/song.ext'')) ''/Volumes/T7/X/Y/song.ext''
       = Path ''/Volumes/T7/X/Y/song.ext''"
    "exists_raises plain_env (Path ''/Volumes/T7/X/Y/song.ext'') = None"
    "path_exists usb_fs (Path ''/Volumes/T7/X/Y/song.ext'')"
    "resolve plain_env (Path ''/Volumes/T7/X/Y/song.ext'') = Inr (Path ''/Volumes/T7/X/Y/song.ext'')"
    by code_simp+
  from resolve_returns_path [where filename = "''song.ext''" and e = plain_env and f = usb_fs
        and folder = "''/Volumes/T7/X/Y''" and fp = "''/Volumes/T7/X/Y''"
        and full = "''/Volumes/T7/X/Y/song.ext''" and p = "Path ''/Volumes/T7/X/Y/song.ext''"] h6
  have 6: "normalize_rekordbox_path plain_env usb_fs ''/Volumes/T7/X/Y'' ''song.ext''
       = Some (Path ''/Volumes/T7/X/Y/song.ext'')"
    by simp
  have h7: "\<not> startswith (strip ''/music/'') ''file://''" by code_simp
  from resolve_returns_path [where filename = "''Song.flac''" and e = plain_env
        and folder = "''/music/''"] h7
  have 7: "\<exists>q. normalize_rb_path plain_env ''/music/'' ''Song.flac'' = Inr q" by blast
  from 1 2 3 4 5 6 7 show ?thesis by blast
qed

theorem resolve_returns_none_counterexample:
  "normalize_rekordbox_path plain_env empty_fs ''/music/'' [] = None"
  by code_simp

section \<open>Properties of the manifests\<close>









lemma plain_comps_append: "plain_comps (xs @ ys) = (plain_comps xs \<and> plain_comps ys)"
  by (simp add: plain_comps_def)


lemma plain_comps_take: "plain_comps xs \<Longrightarrow> plain_comps (take n xs)"
  by (auto simp: plain_comps_def list_all_iff dest: in_set_takeD)














section \<open>Properties of the atomic writes\<close>



lemma mkdir_parents_existing: "is_dir f d \<Longrightarrow> mkdir_parents e f d = (f, None)"
  by (subst mkdir_parents.simps) (simp add: os_mkdir_def path_exists_def)






















section \<open>Properties of the persisted state\<close>


lemma set_playlist_other_state:
  assumes "set_playlist st k status = Inr st'" "q \<noteq> k"
  shows "playlist_state st' q = playlist_state st q"
proof -
  from assms(1) obtain kvs where st: "st = JDict kvs"
    by (auto simp: set_playlist_def split: json.splits)
  show ?thesis
  proof (cases "map_of kvs ''playlists''")
    case None
    with assms st show ?thesis
      by (auto simp: set_playlist_def set_item_def playlist_state_def dict_get_def
          update_conv')
  next
    case (Some pls)
    with assms(1) st obtain pd where pd: "pls = JDict pd"
      by (auto simp: set_playlist_def set_item_def split: json.splits)
    with Some assms st show ?thesis
      by (auto simp: set_playlist_def set_item_def playlist_state_def dict_get_def
          update_conv')
  qed
qed


lemma set_item_playlist_state:
  assumes "set_item st k v = Inr st'" "k \<noteq> ''playlists''"
  shows "playlist_state st' q = playlist_state st q"
  using assms
  by (auto simp: set_item_def playlist_state_def dict_get_def update_conv' split: json.splits)


lemma playlist_completed_initial:
  "playlist_completed exporter_initial_state pid = Inr False"
  "playlist_completed copier_initial_state pid = Inr False"
  "playlist_completed (resumable_initial_state bp) pid = Inr False"
  by (simp_all add: playlist_completed_def dict_get_def exporter_initial_state_def
      copier_initial_state_def resumable_initial_state_def)

text \<open>
  C10. When the state file exists but cannot be parsed (reading it or \<^verbatim>\<open>json.loads\<close>
  raises), each of the three \<^verbatim>\<open>load_state\<close> methods returns normally with the state it
  had, and the file system is as before: the file is neither deleted nor rewritten.
  The initial state marks no playlist completed, so the run starts like a fresh one.
\<close>

theorem load_state_keeps_default_on_corrupt_file:
  "(path_exists (disk w) (state_path cfg)
      \<and> (\<forall>txt. read_text (disk w) (state_path cfg) = Inr txt \<longrightarrow> (\<exists>x. json_loads e txt = Inl x))
     \<longrightarrow> state (load_state e cfg w) = state w \<and> disk (load_state e cfg w) = disk w)
   \<and> (path_exists (c_disk cw) (c_state_file ccfg)
      \<and> (\<forall>txt. read_text (c_disk cw) (c_state_file ccfg) = Inr txt
             \<longrightarrow> (\<exists>x. json_loads e txt = Inl x))
     \<longrightarrow> c_state (copier_load_state e ccfg cw) = c_state cw
         \<and> c_stats (copier_load_state e ccfg cw) = c_stats cw
         \<and> c_disk (copier_load_state e ccfg cw) = c_disk cw)
   \<and> (path_exists (disk w) sp
      \<and> (\<forall>txt. read_text (disk w) sp = Inr txt \<longrightarrow> (\<exists>x. json_loads e txt = Inl x))
     \<longrightarrow> state (resumable_load_state e sp w) = state w
         \<and> disk (resumable_load_state e sp w) = disk w)
   \<and> playlist_completed exporter_initial_state pid = Inr False
   \<and> playlist_completed copier_initial_state pid = Inr False
   \<and> playlist_completed (resumable_initial_state bp) pid = Inr False"
proof -
  have a: "load_state e cfg w = w"
    if "\<forall>txt. read_text (disk w) (state_path cfg) = Inr txt \<longrightarrow> (\<exists>x. json_loads e txt = Inl x)"
    using that by (auto simp: load_state_def split: sum.splits)
  have b: "copier_load_state e ccfg cw = cw"
    if "\<forall>txt. read_text (c_disk cw) (c_state_file ccfg) = Inr txt
             \<longrightarrow> (\<exists>x. json_loads e txt = Inl x)"
    using that by (auto simp: copier_load_state_def split: sum.splits)
  have c: "resumable_load_state e sp w = w"
    if "\<forall>txt. read_text (disk w) sp = Inr txt \<longrightarrow> (\<exists>x. json_loads e txt = Inl x)"
    using that by (auto simp: resumable_load_state_def split: sum.splits)
  from a b c show ?thesis by (simp add: playlist_completed_initial)
qed

theorem load_state_keeps_default_on_corrupt_file_witness:
  "path_exists corrupt_fs (state_path (exporter_init (Path ''/usb'') True))
   \<and> read_text corrupt_fs (state_path (exporter_init (Path ''/usb'') True)) = Inr ''{version: 1''
   \<and> json_loads plain_env ''{version: 1'' = Inl JSONDecodeError
   \<and> load_state plain_env (exporter_init (Path ''/usb'') True)
        \<lparr>state = exporter_initial_state, disk = corrupt_fs\<rparr>
      = \<lparr>state = exporter_initial_state, disk = corrupt_fs\<rparr>
   \<and> resumable_load_state plain_env (Path ''/usb/.alldj_export_state.json'')
        \<lparr>state = resumable_initial_state (Path ''/music''), disk = corrupt_fs\<rparr>
      = \<lparr>state = resumable_initial_state (Path ''/music''), disk = corrupt_fs\<rparr>
   \<and> playlist_completed exporter_initial_state ''7'' = Inr False"
proof -
  let ?cfg = "exporter_init (Path ''/usb'') True"
  let ?w = "\<lparr>state = exporter_initial_state, disk = corrupt_fs\<rparr>"
  let ?w2 = "\<lparr>state = resumable_initial_state (Path ''/music''), disk = corrupt_fs\<rparr>"
  have sp: "state_path ?cfg = Path ''/usb/.alldj_export_state.json''"
    by code_simp
  have ex: "path_exists corrupt_fs (Path ''/usb/.alldj_export_state.json'')"
    by (simp add: corrupt_fs_def path_exists_def)
  have rd: "read_text corrupt_fs (Path ''/usb/.alldj_export_state.json'') = Inr ''{version: 1''"
    by (simp add: corrupt_fs_def read_text_def)
  have js: "json_loads plain_env s = Inl JSONDecodeError" for s
    by (simp add: plain_env_def)
  have hyp: "\<forall>txt. read_text corrupt_fs (Path ''/usb/.alldj_export_state.json'') = Inr txt
      \<longrightarrow> (\<exists>x. json_loads plain_env txt = Inl x)"
    using js by blast
  have "state (load_state plain_env ?cfg ?w) = state ?w \<and> disk (load_state plain_env ?cfg ?w) = disk ?w"
    using load_state_keeps_default_on_corrupt_file [where w = ?w and cfg = ?cfg and e = plain_env]
      ex hyp sp by simp
  then have l1: "load_state plain_env ?cfg ?w = ?w" by (cases "load_state plain_env ?cfg ?w") auto
  have "state (resumable_load_state plain_env (Path ''/usb/.alldj_export_state.json'') ?w2) = state ?w2
      \<and> disk (resumable_load_state plain_env (Path ''/usb/.alldj_export_state.json'') ?w2) = disk ?w2"
    using load_state_keeps_default_on_corrupt_file [where w = ?w2
        and sp = "Path ''/usb/.alldj_export_state.json''" and e = plain_env]
      ex hyp by simp
  then have l2: "resumable_load_state plain_env (Path ''/usb/.alldj_export_state.json'') ?w2 = ?w2"
    by (cases "resumable_load_state plain_env (Path ''/usb/.alldj_export_state.json'') ?w2") auto
  show ?thesis
    using l1 l2 ex rd sp js [of "''{version: 1''"] playlist_completed_initial(1) [of "''7''"] by simp
qed

section \<open>Properties of the copier\<close>


lemma iadd_int [simp]: "iadd (JInt i) n = Inr (JInt (i + n))"
  by (simp add: iadd_def)


lemma count_failure_int:
  "tracks_failed (a_stats a) = JInt k \<Longrightarrow>
   count_failure a = (a\<lparr>a_stats := (a_stats a)\<lparr>tracks_failed := JInt (k + 1)\<rparr>,
                        tracks_failed_count := tracks_failed_count a + 1\<rparr>, None)"
  by (simp add: count_failure_def)












lemma copy_and_write_state:
  "copy_and_write e cfg w playlist tracks = (w1, a, r) \<Longrightarrow> c_state w1 = c_state w"
  by (auto simp: copy_and_write_def split: prod.splits option.splits)

lemma copier_save_state_entries:
  assumes "copier_save_state e cfg w = (w', r)"
  shows "playlist_state (c_state w') q = playlist_state (c_state w) q"
proof (cases "c_resume cfg")
  case False
  with assms show ?thesis by (simp add: copier_save_state_def)
next
  case True
  show ?thesis
  proof (cases "asdict (c_stats w)")
    case (Inl x)
    with True assms show ?thesis by (simp add: copier_save_state_def)
  next
    case (Inr stats)
    show ?thesis
    proof (cases "set_item (c_state w) ''stats'' stats")
      case (Inl x)
      with True Inr assms show ?thesis by (simp add: copier_save_state_def)
    next
      case s1: (Inr st1)
      have e1: "playlist_state st1 q = playlist_state (c_state w) q"
        by (rule set_item_playlist_state [OF s1]) simp
      show ?thesis
      proof (cases "set_item st1 ''timestamp'' (JStr (now_iso e))")
        case (Inl x)
        with True Inr s1 assms e1 show ?thesis by (auto simp: copier_save_state_def)
      next
        case s2: (Inr st2)
        have e2: "playlist_state st2 q = playlist_state st1 q"
          by (rule set_item_playlist_state [OF s2]) simp
        from True Inr s1 s2 assms have "c_state w' = st2"
          by (auto simp: copier_save_state_def split: prod.splits)
        with e1 e2 show ?thesis by simp
      qed
    qed
  qed
qed

lemma update_state_other:
  assumes "update_state e cfg w1 playlist n a = (w', r)" "q \<noteq> pl_id playlist"
  shows "playlist_state (c_state w') q = playlist_state (c_state w1) q"
proof (cases "set_playlist (c_state w1) (pl_id playlist)
             (completed_record playlist n a (playlist_file_of cfg playlist))")
  case (Inl y)
  with assms show ?thesis by (simp add: update_state_def)
next
  case (Inr st)
  note o = set_playlist_other_state [OF Inr assms(2)]
  show ?thesis
  proof (cases "iadd (playlists_completed (c_stats w1)) 1")
    case (Inl y)
    with Inr assms o show ?thesis by (auto simp: update_state_def)
  next
    case v: (Inr v)
    obtain w3 r3 where sv: "copier_save_state e cfg
        (w1\<lparr>c_state := st, c_stats := (c_stats w1)\<lparr>playlists_completed := v\<rparr>\<rparr>) = (w3, r3)"
      by (cases "copier_save_state e cfg
        (w1\<lparr>c_state := st, c_stats := (c_stats w1)\<lparr>playlists_completed := v\<rparr>\<rparr>)")
    from Inr v sv assms have "w' = w3" by (auto simp: update_state_def split: option.splits)
    with copier_save_state_entries [OF sv, of q] o show ?thesis by simp
  qed
qed

lemma skip_playlist_same:
  "skip_playlist w b = (w', r) \<Longrightarrow> c_state w' = c_state w \<and> c_disk w' = c_disk w"
  by (auto simp: skip_playlist_def split: sum.splits)

lemma copy_playlist_other:
  assumes "copy_playlist e cfg cat w playlist = (w', r)" "q \<noteq> pl_id playlist"
  shows "playlist_state (c_state w') q = playlist_state (c_state w) q"
proof (cases "playlist_completed (c_state w) (pl_id playlist)")
  case (Inl y)
  with assms show ?thesis by (simp add: copy_playlist_def)
next
  case (Inr fin)
  show ?thesis
  proof (cases "fin \<or> get_playlist_tracks e cfg cat (c_disk w) (pl_id playlist) = []")
    case True
    with Inr assms show ?thesis
      by (auto simp: copy_playlist_def Let_def split: if_splits dest: skip_playlist_same)
  next
    case False
    obtain w1 a r1 where cw: "copy_and_write e cfg w playlist
        (get_playlist_tracks e cfg cat (c_disk w) (pl_id playlist)) = (w1, a, r1)"
      by (cases "copy_and_write e cfg w playlist
        (get_playlist_tracks e cfg cat (c_disk w) (pl_id playlist))") auto
    note st = copy_and_write_state [OF cw]
    show ?thesis
    proof (cases r1)
      case (Inl y)
      with False Inr cw assms st show ?thesis by (simp add: copy_playlist_def Let_def)
    next
      case wr: (Inr written)
      show ?thesis
      proof (cases written)
        case False
        with \<open>\<not> (fin \<or> get_playlist_tracks e cfg cat (c_disk w) (pl_id playlist) = [])\<close>
          Inr wr cw assms st show ?thesis by (simp add: copy_playlist_def Let_def)
      next
        case True
        with \<open>\<not> (fin \<or> get_playlist_tracks e cfg cat (c_disk w) (pl_id playlist) = [])\<close>
          Inr wr cw assms
        have "update_state e cfg w1 playlist
          (length (get_playlist_tracks e cfg cat (c_disk w) (pl_id playlist))) a = (w', r)"
          by (simp add: copy_playlist_def Let_def)
        from update_state_other [OF this assms(2)] st show ?thesis by simp
      qed
    qed
  qed
qed

lemma print_stats_failed [simp]:
  "print_stats e (s\<lparr>playlists_failed := v\<rparr>) = print_stats e s"
  by (simp add: print_stats_def)

lemma run_playlists_append:
  "run_playlists e cfg cat w i (ps @ qs) =
     (case run_playlists e cfg cat w i ps of
        (w1, Some x) \<Rightarrow> (w1, Some x)
      | (w1, None) \<Rightarrow> run_playlists e cfg cat w1 (i + length ps) qs)"
proof (induction ps arbitrary: w i)
  case Nil
  show ?case by simp
next
  case (Cons p ps)
  show ?case
    by (simp add: Cons.IH split: prod.splits option.splits)
qed

lemma run_playlists_caught:
  assumes "copy_playlist e cfg cat w playlist = (w', Inl x)"
    "playlists_failed (c_stats w') = JInt k"
    "i mod 10 \<noteq> 0 \<or> print_stats e (c_stats w') = None"
  shows "run_playlists e cfg cat w i (playlist # rest)
    = run_playlists e cfg cat
        (w'\<lparr>c_stats := (c_stats w')\<lparr>playlists_failed := JInt (k + 1)\<rparr>\<rparr>) (i + 1) rest"
  using assms by (auto simp: count_failed_playlist_def)

text \<open>
  C8 as amended. In the copier (\<^verbatim>\<open>RekordboxPlaylistCopier.run\<close>) an exception that escapes
  \<^verbatim>\<open>copy_playlist\<close> is caught and the playlist is counted as failed. When the counter of
  failed playlists is a number (and, after every tenth playlist, \<^verbatim>\<open>print_stats\<close> does not
  raise) the loop goes on with the next playlist, wherever in the list the failing
  playlist stands; when the counter is not a number, its \<^verbatim>\<open>+= 1\<close> raises in the handler
  and that exception ends the run. Whether a playlist fails or not, it leaves the records
  of all other playlists in the state dictionary as they were. In the exporter
  (\<^verbatim>\<open>RekordboxUSBExporter.export\<close>) nothing catches the exception: it ends the loop.
\<close>

theorem playlist_exception_caught_by_copier:
  "(copy_playlist e cfg cat w playlist = (w', Inl x)
      \<and> playlists_failed (c_stats w') = JInt k
      \<and> (i mod 10 \<noteq> 0 \<or> print_stats e (c_stats w') = None)
    \<longrightarrow> run_playlists e cfg cat w i (playlist # rest)
          = run_playlists e cfg cat
              (w'\<lparr>c_stats := (c_stats w')\<lparr>playlists_failed := JInt (k + 1)\<rparr>\<rparr>) (i + 1) rest)
   \<and> (run_playlists e cfg cat w i before = (wb, None)
      \<and> copy_playlist e cfg cat wb playlist = (w', Inl x)
      \<and> playlists_failed (c_stats w') = JInt k
      \<and> ((i + length before) mod 10 \<noteq> 0 \<or> print_stats e (c_stats w') = None)
    \<longrightarrow> run_playlists e cfg cat w i (before @ playlist # rest)
          = run_playlists e cfg cat
              (w'\<lparr>c_stats := (c_stats w')\<lparr>playlists_failed := JInt (k + 1)\<rparr>\<rparr>)
              (i + length before + 1) rest)
   \<and> (copy_playlist e cfg cat w playlist = (w', r) \<and> q \<noteq> pl_id playlist
    \<longrightarrow> playlist_state (c_state w') q = playlist_state (c_state w) q)
   \<and> (copy_playlist e cfg cat w playlist = (w', Inl x)
      \<and> iadd (playlists_failed (c_stats w')) 1 = Inl y
    \<longrightarrow> run_playlists e cfg cat w i (playlist # rest) = (w', Some y))
   \<and> (playlist_tracks e cat (pn_id p) = Inr tr \<and> tr \<noteq> []
        \<and> playlist_completed (state xw) (pn_id p) = Inr False
        \<and> export_playlist e xcfg nodes incl xw p tr = (xw', Some x) \<longrightarrow>
      export_loop e xcfg cat nodes None incl xw n (p # ps) = (xw', Some x))"
proof (intro conjI impI)
  assume "copy_playlist e cfg cat w playlist = (w', Inl x)
      \<and> playlists_failed (c_stats w') = JInt k
      \<and> (i mod 10 \<noteq> 0 \<or> print_stats e (c_stats w') = None)"
  then show "run_playlists e cfg cat w i (playlist # rest)
          = run_playlists e cfg cat
              (w'\<lparr>c_stats := (c_stats w')\<lparr>playlists_failed := JInt (k + 1)\<rparr>\<rparr>) (i + 1) rest"
    by (intro run_playlists_caught) auto
next
  assume a: "run_playlists e cfg cat w i before = (wb, None)
      \<and> copy_playlist e cfg cat wb playlist = (w', Inl x)
      \<and> playlists_failed (c_stats w') = JInt k
      \<and> ((i + length before) mod 10 \<noteq> 0 \<or> print_stats e (c_stats w') = None)"
  then have "run_playlists e cfg cat wb (i + length before) (playlist # rest)
          = run_playlists e cfg cat
              (w'\<lparr>c_stats := (c_stats w')\<lparr>playlists_failed := JInt (k + 1)\<rparr>\<rparr>)
              (i + length before + 1) rest"
    by (intro run_playlists_caught) auto
  with a show "run_playlists e cfg cat w i (before @ playlist # rest)
          = run_playlists e cfg cat
              (w'\<lparr>c_stats := (c_stats w')\<lparr>playlists_failed := JInt (k + 1)\<rparr>\<rparr>)
              (i + length before + 1) rest"
    by (simp only: run_playlists_append) simp
next
  assume "copy_playlist e cfg cat w playlist = (w', r) \<and> q \<noteq> pl_id playlist"
  then show "playlist_state (c_state w') q = playlist_state (c_state w) q"
    by (auto intro: copy_playlist_other)
next
  assume "copy_playlist e cfg cat w playlist = (w', Inl x)
      \<and> iadd (playlists_failed (c_stats w')) 1 = Inl y"
  then show "run_playlists e cfg cat w i (playlist # rest) = (w', Some y)"
    by (simp add: count_failed_playlist_def)
next
  assume "playlist_tracks e cat (pn_id p) = Inr tr \<and> tr \<noteq> []
        \<and> playlist_completed (state xw) (pn_id p) = Inr False
        \<and> export_playlist e xcfg nodes incl xw p tr = (xw', Some x)"
  then show "export_loop e xcfg cat nodes None incl xw n (p # ps) = (xw', Some x)"
    by simp
qed

theorem playlist_exception_caught_by_copier_witness:
  "snd (copy_playlist plain_env example_copier_config example_catalog odd_copier playlist_seven)
     = Inl AttributeError
   \<and> snd (run_playlists plain_env example_copier_config example_catalog odd_copier 1
        [playlist_seven, playlist_eight]) = None
   \<and> playlists_failed (c_stats (fst (run_playlists plain_env example_copier_config
        example_catalog odd_copier 1 [playlist_seven, playlist_eight]))) = JInt 1
   \<and> playlists_completed (c_stats (fst (run_playlists plain_env example_copier_config
        example_catalog odd_copier 1 [playlist_seven, playlist_eight]))) = JInt 1
   \<and> snd (copy_playlist plain_env example_copier_config example_catalog stuck_copier
        playlist_eight) = Inl TypeError
   \<and> playlist_completed (c_state (fst (copy_playlist plain_env example_copier_config
        example_catalog stuck_copier playlist_eight))) ''8'' = Inr True
   \<and> playlist_state (c_state (fst (copy_playlist plain_env example_copier_config
        example_catalog stuck_copier playlist_eight))) ''7''
       = Inr (JDict [(''completed'', JBool False)])
   \<and> snd (run_playlists plain_env example_copier_config example_catalog lost_copier 1
        [playlist_seven, playlist_eight]) = Some TypeError
   \<and> playlist_tracks readonly_music_env example_catalog ''7''
       = Inr [(''Song'', Path ''/Volumes/T7/X/Y/song.ext'')]
   \<and> playlist_completed (state fresh_exporter) ''7'' = Inr False
   \<and> snd (export_playlist readonly_music_env example_exporter_config example_nodes []
        fresh_exporter (example_nodes ! 0) [(''Song'', Path ''/Volumes/T7/X/Y/song.ext'')])
       = Some PermissionError
   \<and> snd (export_loop readonly_music_env example_exporter_config example_catalog example_nodes
        None [] fresh_exporter 0 example_nodes) = Some PermissionError"
proof -
  let ?cfg = example_copier_config
  let ?cp = "copy_playlist plain_env ?cfg example_catalog"
  let ?run = "run_playlists plain_env ?cfg example_catalog"
  have c: "snd (?cp odd_copier playlist_seven) = Inl AttributeError"
    "playlists_failed (c_stats (fst (?cp odd_copier playlist_seven))) = JInt 0"
    "(1::nat) mod 10 \<noteq> 0"
    by code_simp+
  from c(1) have c': "?cp odd_copier playlist_seven
      = (fst (?cp odd_copier playlist_seven), Inl AttributeError)"
    by (simp add: prod_eq_iff)
  note t = playlist_exception_caught_by_copier [where e = plain_env and cfg = ?cfg
      and cat = example_catalog and w = odd_copier and playlist = playlist_seven
      and w' = "fst (?cp odd_copier playlist_seven)" and x = AttributeError and k = 0
      and i = 1 and rest = "[playlist_eight]"]
  from t c' c(2,3) have r: "?run odd_copier 1 [playlist_seven, playlist_eight]
      = ?run ((fst (?cp odd_copier playlist_seven))\<lparr>c_stats :=
          (c_stats (fst (?cp odd_copier playlist_seven)))\<lparr>playlists_failed := JInt (0 + 1)\<rparr>\<rparr>)
          (1 + 1) [playlist_eight]" by blast
  have ev: "snd (?run ((fst (?cp odd_copier playlist_seven))\<lparr>c_stats :=
          (c_stats (fst (?cp odd_copier playlist_seven)))\<lparr>playlists_failed := JInt (0 + 1)\<rparr>\<rparr>)
          (1 + 1) [playlist_eight]) = None"
    "playlists_failed (c_stats (fst (?run ((fst (?cp odd_copier playlist_seven))\<lparr>c_stats :=
          (c_stats (fst (?cp odd_copier playlist_seven)))\<lparr>playlists_failed := JInt (0 + 1)\<rparr>\<rparr>)
          (1 + 1) [playlist_eight]))) = JInt 1"
    "playlists_completed (c_stats (fst (?run ((fst (?cp odd_copier playlist_seven))\<lparr>c_stats :=
          (c_stats (fst (?cp odd_copier playlist_seven)))\<lparr>playlists_failed := JInt (0 + 1)\<rparr>\<rparr>)
          (1 + 1) [playlist_eight]))) = JInt 1"
    by code_simp+
  have st: "snd (?cp stuck_copier playlist_eight) = Inl TypeError"
    "playlist_completed (c_state (fst (?cp stuck_copier playlist_eight))) ''8'' = Inr True"
    "playlist_state (c_state stuck_copier) ''7'' = Inr (JDict [(''completed'', JBool False)])"
    "''7'' \<noteq> pl_id playlist_eight"
    by code_simp+
  from st(1) have st': "?cp stuck_copier playlist_eight
      = (fst (?cp stuck_copier playlist_eight), Inl TypeError)"
    by (simp add: prod_eq_iff)
  from playlist_exception_caught_by_copier [where e = plain_env and cfg = ?cfg
      and cat = example_catalog and w = stuck_copier and playlist = playlist_eight
      and w' = "fst (?cp stuck_copier playlist_eight)" and r = "Inl TypeError"
      and q = "''7''"] st' st(3,4)
  have other: "playlist_state (c_state (fst (?cp stuck_copier playlist_eight))) ''7''
       = Inr (JDict [(''completed'', JBool False)])" by simp
  have l: "snd (?cp lost_copier playlist_seven) = Inl AttributeError"
    "iadd (playlists_failed (c_stats (fst (?cp lost_copier playlist_seven)))) 1 = Inl TypeError"
    by code_simp+
  from l(1) have l': "?cp lost_copier playlist_seven
      = (fst (?cp lost_copier playlist_seven), Inl AttributeError)"
    by (simp add: prod_eq_iff)
  from playlist_exception_caught_by_copier [where e = plain_env and cfg = ?cfg
      and cat = example_catalog and w = lost_copier and playlist = playlist_seven
      and w' = "fst (?cp lost_copier playlist_seven)" and x = AttributeError and y = TypeError
      and i = 1 and rest = "[playlist_eight]"] l' l(2)
  have lost: "snd (?run lost_copier 1 [playlist_seven, playlist_eight]) = Some TypeError"
    by simp
  have x: "playlist_tracks readonly_music_env example_catalog ''7''
       = Inr [(''Song'', Path ''/Volumes/T7/X/Y/song.ext'')]"
    "playlist_completed (state fresh_exporter) ''7'' = Inr False"
    "pn_id (example_nodes ! 0) = ''7''"
    "example_nodes = (example_nodes ! 0) # tl example_nodes"
    by code_simp+
  obtain xw' where xp: "export_playlist readonly_music_env example_exporter_config example_nodes []
        fresh_exporter (example_nodes ! 0) [(''Song'', Path ''/Volumes/T7/X/Y/song.ext'')]
       = (xw', Some PermissionError)"
  proof -
    have "snd (export_playlist readonly_music_env example_exporter_config example_nodes []
        fresh_exporter (example_nodes ! 0) [(''Song'', Path ''/Volumes/T7/X/Y/song.ext'')])
       = Some PermissionError" by code_simp
    then show ?thesis using that by (metis prod.collapse)
  qed
  note t2 = playlist_exception_caught_by_copier [where e = readonly_music_env
      and cat = example_catalog and p = "example_nodes ! 0"
      and tr = "[(''Song'', Path ''/Volumes/T7/X/Y/song.ext'')]" and xw = fresh_exporter
      and xcfg = example_exporter_config and nodes = example_nodes and incl = "[]"
      and xw' = xw' and x = PermissionError and n = 0 and ps = "tl example_nodes"]
  from t2 x xp have "export_loop readonly_music_env example_exporter_config example_catalog
      example_nodes None [] fresh_exporter 0 ((example_nodes ! 0) # tl example_nodes)
        = (xw', Some PermissionError)" by simp
  with x(4) have lx: "snd (export_loop readonly_music_env example_exporter_config example_catalog
      example_nodes None [] fresh_exporter 0 example_nodes) = Some PermissionError" by simp
  from xp have xp': "snd (export_playlist readonly_music_env example_exporter_config
        example_nodes [] fresh_exporter (example_nodes ! 0)
        [(''Song'', Path ''/Volumes/T7/X/Y/song.ext'')]) = Some PermissionError" by simp
  from c(1) r ev st(1,2) other lost x(1,2) xp' lx show ?thesis by simp
qed

theorem exporter_aborts_counterexample:
  "snd (export readonly_music_env example_exporter_config example_catalog None [] usb_fs)
     = Some PermissionError
   \<and> playlist_completed
       (state (fst (export readonly_music_env example_exporter_config example_catalog None []
          usb_fs))) ''8'' = Inr False
   \<and> files (disk (fst (export readonly_music_env example_exporter_config example_catalog None []
          usb_fs))) (Path ''/usb/PLAYLISTS/second.m3u8'') = None"
  by code_simp









section \<open>Properties of the exporter\<close>












lemma fs_le_refl [simp]: "fs_le f f"
  by (simp add: fs_le_def)































lemma mktemp_denied: "write_denied e d \<Longrightarrow> \<exists>x. mktemp e f d = Inl x"
  by (simp add: mktemp_def Let_def)

lemma copy_file_atomic_denied:
  "write_denied e (parent dest) \<Longrightarrow> snd (copy_file_atomic e f src dest) \<noteq> None"
  by (auto simp: copy_file_atomic_def mktemp_def Let_def split: prod.splits option.splits)

lemma atomic_write_text_denied:
  "write_denied e (parent dest) \<Longrightarrow> snd (atomic_write_text e f dest content) \<noteq> None"
  by (auto simp: atomic_write_text_def mktemp_def Let_def split: prod.splits option.splits)




section \<open>The same-size check\<close>

text \<open>
  C4. A destination of the size of the source is not written. When the destination exists
  and \<^verbatim>\<open>stat\<close> gives it the size of the source, whatever the two files contain,

  \<^item> \<^verbatim>\<open>atomic_copy_file\<close> of copy\_rekordbox\_playlists\_to\_usb.py returns \<^verbatim>\<open>False\<close> and
    leaves the file system as it was (the directory of an existing destination exists,
    so the \<^verbatim>\<open>mkdir\<close> before the check creates nothing);
  \<^item> the loop of export\_rekordbox\_playlists\_to\_usb.py, for a source that exists, does
    not call \<^verbatim>\<open>copy_file_atomic\<close> and leaves the file system as it was;
  \<^item> \<^verbatim>\<open>copy_track_if_needed\<close> of export\_playlists\_to\_usb.py, for a source that exists,
    returns the destination and leaves the file system as it was.
\<close>

theorem same_size_skips_copy:
  "(path_exists f dest \<and> is_dir f (parent dest) \<and> st_size e f src = st_size e f dest
    \<longrightarrow> atomic_copy_file e f src dest = (f, Inr False))
   \<and> (path_exists f dest \<and> path_exists f src \<and> st_size e f src = st_size e f dest
    \<longrightarrow> copy_if_changed e f src dest = (f, None))
   \<and> (path_exists f (track_dest cfg src) \<and> path_exists f src
        \<and> st_size e f src = st_size e f (track_dest cfg src)
    \<longrightarrow> copy_track_if_needed e cfg f src = (f, Inr (Some (track_dest cfg src))))"
proof (intro conjI impI)
  assume a: "path_exists f dest \<and> is_dir f (parent dest) \<and> st_size e f src = st_size e f dest"
  then have "mkdir_parents e f (parent dest) = (f, None)" by (simp add: mkdir_parents_existing)
  with a show "atomic_copy_file e f src dest = (f, Inr False)"
    by (simp add: atomic_copy_file_def)
next
  assume "path_exists f dest \<and> path_exists f src \<and> st_size e f src = st_size e f dest"
  then show "copy_if_changed e f src dest = (f, None)"
    by (simp add: copy_if_changed_def file_same_size_def stat_size_def)
next
  assume "path_exists f (track_dest cfg src) \<and> path_exists f src
        \<and> st_size e f src = st_size e f (track_dest cfg src)"
  then show "copy_track_if_needed e cfg f src = (f, Inr (Some (track_dest cfg src)))"
    by (simp add: copy_track_if_needed_def file_same_size_def stat_size_def)
qed

theorem same_size_skips_copy_witness:
  "files usb_fs (Path ''/Volumes/T7/X/Y/song.ext'') = Some ''abc''
   \<and> files usb_fs (Path ''/usb/ALLDJ_MUSIC/X/Y/song.ext'') = Some ''xyz''
   \<and> atomic_copy_file plain_env usb_fs (Path ''/Volumes/T7/X/Y/song.ext'')
        (Path ''/usb/ALLDJ_MUSIC/X/Y/song.ext'') = (usb_fs, Inr False)
   \<and> copy_if_changed plain_env usb_fs (Path ''/Volumes/T7/X/Y/song.ext'')
        (Path ''/usb/ALLDJ_MUSIC/X/Y/song.ext'') = (usb_fs, None)
   \<and> copy_track_if_needed plain_env example_resumable_config usb_fs
        (Path ''/Volumes/T7/X/Y/song.ext'')
        = (usb_fs, Inr (Some (Path ''/usb/ALLDJ_MUSIC/X/Y/song.ext'')))"
proof -
  let ?src = "Path ''/Volumes/T7/X/Y/song.ext''"
  let ?dest = "Path ''/usb/ALLDJ_MUSIC/X/Y/song.ext''"
  have s: "files usb_fs ?src = Some ''abc''" by code_simp
  have d: "files usb_fs ?dest = Some ''xyz''" by code_simp
  have td: "track_dest example_resumable_config ?src = ?dest" by code_simp
  have h: "path_exists usb_fs ?dest" "is_dir usb_fs (parent ?dest)" "path_exists usb_fs ?src"
    "st_size plain_env usb_fs ?src = st_size plain_env usb_fs ?dest"
    by code_simp+
  note inst = same_size_skips_copy [where f = usb_fs and dest = ?dest and src = ?src
      and e = plain_env and cfg = example_resumable_config]
  from inst h have 1: "atomic_copy_file plain_env usb_fs ?src ?dest = (usb_fs, Inr False)"
    by blast
  from inst h have 2: "copy_if_changed plain_env usb_fs ?src ?dest = (usb_fs, None)"
    by blast
  from inst h td have 3: "copy_track_if_needed plain_env example_resumable_config usb_fs ?src
        = (usb_fs, Inr (Some ?dest))" by simp
  from s d 1 2 3 show ?thesis by blast
qed

end
